theory Spec2Isabelle
  imports Complex_Main
begin

section \<open>Python values, exceptions and the outside world\<close>

text \<open>
  The gateway of \<^verbatim>\<open>api/livekit_routes.py\<close> and the connector of
  \<^verbatim>\<open>connectors/gemini_live.py\<close> are embedded as state-passing functions over a
  record \<open>world\<close>. Everything the code takes from outside its own files is a field of
  the record \<open>env\<close>: the generative model, the wall clock, \<^verbatim>\<open>uuid.uuid4\<close>,
  \<^verbatim>\<open>base64.b64decode\<close>, HMAC-SHA256, the pydantic field coercions and the settings.
\<close>

datatype pyval =
    PNone
  | PBool bool
  | PInt int
  | PFloat real
  | PStr string
  | PList "pyval list"
  | PDict "(string \<times> pyval) list"
  | PDatetime real

type_synonym pydict = "(string \<times> pyval) list"

text \<open>\<^verbatim>\<open>d.get(k)\<close> on a dict.\<close>

definition dict_get :: "pydict \<Rightarrow> string \<Rightarrow> pyval option" where
  "dict_get d k = map_of d k"

datatype exn =
    ValueError string
  | TypeError string
  | AttributeError string
  | ValidationError string
  | JSONDecodeError string
  | RecursionError string
  | UpstreamError string

text \<open>\<^verbatim>\<open>str(e)\<close>.\<close>

fun exn_str :: "exn \<Rightarrow> string" where
  "exn_str (ValueError m) = m"
| "exn_str (TypeError m) = m"
| "exn_str (AttributeError m) = m"
| "exn_str (ValidationError m) = m"
| "exn_str (JSONDecodeError m) = m"
| "exn_str (RecursionError m) = m"
| "exn_str (UpstreamError m) = m"

text \<open>
  \<^verbatim>\<open>json.dumps\<close> with no \<^verbatim>\<open>default=\<close> hook: it raises \<^verbatim>\<open>TypeError\<close> on a
  \<^verbatim>\<open>datetime\<close> anywhere in the value. The text frame itself is not modelled; a frame
  is the value handed to \<^verbatim>\<open>json.dumps\<close>.
\<close>

fun serializable :: "pyval \<Rightarrow> bool" where
  "serializable (PDatetime t) = False"
| "serializable (PList vs) = list_all serializable vs"
| "serializable (PDict kvs) = list_all serializable (map snd kvs)"
| "serializable v = True"

definition json_dumps :: "pyval \<Rightarrow> exn + pyval" where
  "json_dumps v =
     (if serializable v then Inr v
      else Inl (TypeError ''Object of type datetime is not JSON serializable''))"

subsection \<open>Decimal text of an integer\<close>

definition digit_char :: "nat \<Rightarrow> char" where
  "digit_char d = char_of (48 + d)"

function str_nat :: "nat \<Rightarrow> string" where
  "str_nat n = (if n < 10 then [digit_char n] else str_nat (n div 10) @ [digit_char (n mod 10)])"
  by pat_completeness auto
termination
  by (relation "measure (\<lambda>n. n)") auto

declare str_nat.simps [simp del]

text \<open>What an f-string writes for an \<^verbatim>\<open>int\<close>.\<close>

definition str_int :: "int \<Rightarrow> string" where
  "str_int i = (if i < 0 then CHR ''-'' # str_nat (nat (- i)) else str_nat (nat i))"

text \<open>\<^verbatim>\<open>int(x)\<close> on a float truncates towards zero.\<close>

definition py_int :: "real \<Rightarrow> int" where
  "py_int t = (if 0 \<le> t then \<lfloor>t\<rfloor> else \<lceil>t\<rceil>)"

subsection \<open>The environment\<close>

datatype response = Response (resp_text: "string option")

datatype ai_outcome = AiRaises string | AiReturns "response option"

datatype ai_request = GreetingPrompt | AudioPrompt string | ScreenPrompt string

record settings =
  livekit_api_key :: string
  livekit_api_secret :: string
  livekit_room_prefix :: string
  livekit_url :: string
  gemini_model :: string

record env =
  settings :: settings
  model_generate_content :: "nat \<Rightarrow> ai_request \<Rightarrow> ai_outcome"
  model_init_error :: "string option"
  clock :: "nat \<Rightarrow> real"
  uuid4 :: "nat \<Rightarrow> string"
  b64decode_error :: "string \<Rightarrow> string option"
  hmac_sha256_hex :: "string \<Rightarrow> string \<Rightarrow> string"
  other_fields_ok :: "string \<Rightarrow> pydict \<Rightarrow> bool"
  validation_error_text :: "string \<Rightarrow> pydict \<Rightarrow> string"
  py_repr :: "pyval \<Rightarrow> string"

text \<open>
  \<open>model_generate_content env n req\<close> is what the \<open>n\<close>-th call of the SDK's
  \<^verbatim>\<open>generate_content\<close> does on request \<open>req\<close>: it raises, returns \<^verbatim>\<open>None\<close>, or
  returns a response whose \<^verbatim>\<open>.text\<close> is \<^verbatim>\<open>None\<close> or a string.
  \<open>clock env n\<close> is the \<open>n\<close>-th reading of the wall clock (\<^verbatim>\<open>time.time()\<close>,
  \<^verbatim>\<open>datetime.now\<close>, \<^verbatim>\<open>datetime.utcnow\<close>), a real number of seconds instead of a float.
  \<open>b64decode_error env d\<close> is the text of the error \<^verbatim>\<open>base64.b64decode(d)\<close> raises, if
  it raises. \<open>other_fields_ok env cls d\<close> says whether pydantic accepts the fields of
  message class \<open>cls\<close> that no handler reads (timestamp, format, sample rate, ...).
\<close>

section \<open>The connector: \<^verbatim>\<open>GeminiLiveConnector\<close>\<close>

datatype history_entry =
    AssistantGreeting string real string
  | UserAudio real string
  | ScreenShare real string
  | AssistantText string real string

record session =
  s_id :: string
  s_user_id :: string
  s_history :: "history_entry list"
  s_config :: pydict
  s_start_time :: real
  s_status :: string
  s_end_time :: "real option"

record connector =
  model_name :: string
  genai_model :: "string option"
  session :: "session option"
  is_connected :: bool

record room_session =
  r_room_name :: string
  r_user_id :: string
  r_access_token :: string
  r_start_time :: real
  r_status :: string

text \<open>
  The manager's three dicts, the frames sent on the socket so far (oldest first), and how
  many clock readings, model calls and uuids have been consumed.
\<close>

record world =
  active_connections :: "string \<rightharpoonup> nat"
  session_connectors :: "string \<rightharpoonup> connector"
  room_sessions :: "string \<rightharpoonup> room_session"
  sent :: "pyval list"
  ticks :: nat
  ai_calls :: nat
  uuids :: nat

definition time_time :: "env \<Rightarrow> world \<Rightarrow> real \<times> world" where
  "time_time env w = (clock env (ticks w), w\<lparr>ticks := Suc (ticks w)\<rparr>)"

text \<open>\<^verbatim>\<open>GeminiLiveConnector()\<close> and \<^verbatim>\<open>initialize\<close>.\<close>

definition new_connector :: "env \<Rightarrow> connector" where
  "new_connector env =
     \<lparr>model_name = gemini_model (settings env), genai_model = None,
      session = None, is_connected = False\<rparr>"

definition initialize :: "env \<Rightarrow> connector \<Rightarrow> (exn + unit) \<times> connector" where
  "initialize env c =
     (case model_init_error env of
        Some m \<Rightarrow> (Inl (UpstreamError m), c)
      | None \<Rightarrow> (Inr (), c\<lparr>genai_model := Some (model_name c)\<rparr>))"

text \<open>
  \<^verbatim>\<open>_generate_content\<close>: one call of the model; an exception is logged and raised again.
\<close>

definition connector_generate_content ::
  "env \<Rightarrow> connector \<Rightarrow> world \<Rightarrow> ai_request \<Rightarrow> (exn + response option) \<times> world" where
  "connector_generate_content env c w req =
     (case genai_model c of
        None \<Rightarrow>
          (Inl (AttributeError ''NoneType object has no attribute generate_content''), w)
      | Some m \<Rightarrow>
          (case model_generate_content env (ai_calls w) req of
             AiRaises msg \<Rightarrow> (Inl (UpstreamError msg), w\<lparr>ai_calls := Suc (ai_calls w)\<rparr>)
           | AiReturns r \<Rightarrow> (Inr r, w\<lparr>ai_calls := Suc (ai_calls w)\<rparr>)))"

text \<open>The test \<^verbatim>\<open>response and response.text\<close>: the text when it is truthy.\<close>

definition response_text :: "response option \<Rightarrow> string option" where
  "response_text r =
     (case r of
        None \<Rightarrow> None
      | Some (Response None) \<Rightarrow> None
      | Some (Response (Some t)) \<Rightarrow> (if t = [] then None else Some t))"

definition default_greeting :: string where
  "default_greeting =
     ''Hello! I'' @ [CHR 0x27] @ ''m Cloudy, your AWS assistant. How can I help you today?''"

definition append_history :: "connector \<Rightarrow> history_entry \<Rightarrow> connector" where
  "append_history c h =
     c\<lparr>session := map_option (\<lambda>s. s\<lparr>s_history := s_history s @ [h]\<rparr>) (session c)\<rparr>"

record start_result =
  sr_status :: string
  sr_session_id :: string
  sr_message :: string
  sr_greeting :: string

text \<open>
  \<^verbatim>\<open>start_session\<close>. The session dict is assigned before the greeting is asked for; an
  exception of the greeting call leaves through \<^verbatim>\<open>except Exception: ... raise\<close>. The call
  \<^verbatim>\<open>self._safe_json_serialize(result)\<close> only checks a dict of four strings and its value
  is dropped, so it changes nothing and is left out.
\<close>

definition start_session ::
  "env \<Rightarrow> connector \<Rightarrow> world \<Rightarrow> string \<Rightarrow> string \<Rightarrow> pydict option
     \<Rightarrow> (exn + start_result) \<times> connector \<times> world" where
  "start_session env c w session_id user_id config =
     (let (created_at, w1) = time_time env w;
          (start_time, w2) = time_time env w1;
          c1 = c\<lparr>session := Some
                  \<lparr>s_id = session_id, s_user_id = user_id, s_history = [],
                   s_config = (case config of None \<Rightarrow> [] | Some d \<Rightarrow> d),
                   s_start_time = start_time, s_status = ''active'', s_end_time = None\<rparr>,
                 is_connected := True\<rparr>
      in case connector_generate_content env c1 w2 GreetingPrompt of
           (Inl e, w3) \<Rightarrow> (Inl e, c1, w3)
         | (Inr greeting_response, w3) \<Rightarrow>
             (let (greeting_text, c2, w4) =
                    (case response_text greeting_response of
                       None \<Rightarrow> ([], c1, w3)
                     | Some g \<Rightarrow>
                         (let (ts, w') = time_time env w3
                          in (g, append_history c1 (AssistantGreeting g ts session_id), w')))
              in (Inr \<lparr>sr_status = ''success'', sr_session_id = session_id,
                       sr_message = ''Session started successfully'',
                       sr_greeting =
                         (if greeting_text = [] then default_greeting else greeting_text)\<rparr>,
                  c2, w4)))"

text \<open>
  The two processing methods are async generators. Everything they change happens before
  their first \<^verbatim>\<open>yield\<close>; each yielded dict then reads the clock when the consumer asks
  for it. So a call gives the connector and world after the body, and the list of yields
  still to be stamped.
\<close>

datatype pending =
    YieldText string string
  | YieldAudio string
  | YieldError string string

datatype event =
    TextResponseEvent string string real
  | AudioResponseEvent string string real string
  | ErrorEvent string string real

definition resume :: "env \<Rightarrow> world \<Rightarrow> pending \<Rightarrow> event \<times> world" where
  "resume env w p =
     (let (ts, w1) = time_time env w
      in (case p of
            YieldText content sid \<Rightarrow> TextResponseEvent content sid ts
          | YieldAudio sid \<Rightarrow>
              AudioResponseEvent [] sid ts ''Text-to-speech conversion to be implemented''
          | YieldError err sid \<Rightarrow> ErrorEvent err sid ts,
          w1))"

definition process_audio_input ::
  "env \<Rightarrow> connector \<Rightarrow> world \<Rightarrow> string \<Rightarrow> string \<Rightarrow> pending list \<times> connector \<times> world" where
  "process_audio_input env c w audio_data session_id =
     (if \<not> is_connected c \<or> session c = None
      then ([YieldError ''No active session'' session_id], c, w)
      else case b64decode_error env audio_data of
        Some m \<Rightarrow> ([YieldError m session_id], c, w)
      | None \<Rightarrow>
        (case connector_generate_content env c w (AudioPrompt audio_data) of
           (Inl e, w1) \<Rightarrow> ([YieldError (exn_str e) session_id], c, w1)
         | (Inr r, w1) \<Rightarrow>
             (case response_text r of
                None \<Rightarrow> ([], c, w1)
              | Some t \<Rightarrow>
                  (let (ts1, w2) = time_time env w1;
                       c1 = append_history c (UserAudio ts1 session_id);
                       (ts2, w3) = time_time env w2;
                       c2 = append_history c1 (AssistantText t ts2 session_id)
                   in ([YieldText t session_id, YieldAudio session_id], c2, w3)))))"

definition process_screen_share ::
  "env \<Rightarrow> connector \<Rightarrow> world \<Rightarrow> string \<Rightarrow> string \<Rightarrow> pending list \<times> connector \<times> world" where
  "process_screen_share env c w image_data session_id =
     (if \<not> is_connected c \<or> session c = None
      then ([YieldError ''No active session'' session_id], c, w)
      else
        (case connector_generate_content env c w (ScreenPrompt image_data) of
           (Inl e, w1) \<Rightarrow> ([YieldError (exn_str e) session_id], c, w1)
         | (Inr r, w1) \<Rightarrow>
             (case response_text r of
                None \<Rightarrow> ([], c, w1)
              | Some t \<Rightarrow>
                  (let (ts1, w2) = time_time env w1;
                       c1 = append_history c (ScreenShare ts1 session_id);
                       (ts2, w3) = time_time env w2;
                       c2 = append_history c1 (AssistantText t ts2 session_id)
                   in ([YieldText t session_id], c2, w3)))))"

text \<open>
  \<^verbatim>\<open>end_session\<close>: the duration is \<^verbatim>\<open>end_time - start_time\<close>; another identifier, or no
  session, raises \<^verbatim>\<open>ValueError\<close>.
\<close>

definition end_session ::
  "env \<Rightarrow> connector \<Rightarrow> world \<Rightarrow> string \<Rightarrow> (exn + real) \<times> connector \<times> world" where
  "end_session env c w session_id =
     (case session c of
        Some s \<Rightarrow>
          (if s_id s = session_id
           then (let (end_time, w1) = time_time env w;
                     s1 = s\<lparr>s_status := ''ended'', s_end_time := Some end_time\<rparr>
                 in (Inr (end_time - s_start_time s1),
                     c\<lparr>session := Some s1, is_connected := False\<rparr>, w1))
           else (Inl (ValueError (''Session '' @ session_id @ '' not found or already ended'')),
                 c, w))
      | None \<Rightarrow>
          (Inl (ValueError (''Session '' @ session_id @ '' not found or already ended'')), c, w))"

definition is_session_active :: "connector \<Rightarrow> string \<Rightarrow> bool" where
  "is_session_active c session_id =
     (case session c of
        None \<Rightarrow> False
      | Some s \<Rightarrow> s_id s = session_id \<and> s_status s = ''active'')"

section \<open>The gateway: \<^verbatim>\<open>api/livekit_routes.py\<close>\<close>

subsection \<open>Token issuance\<close>

definition token_data :: "env \<Rightarrow> string \<Rightarrow> string \<Rightarrow> int \<Rightarrow> string" where
  "token_data env room_name participant_identity expires =
     livekit_api_key (settings env) @ '':'' @ participant_identity @ '':'' @ room_name
       @ '':'' @ str_int expires"

definition create_access_token :: "env \<Rightarrow> world \<Rightarrow> string \<Rightarrow> string \<Rightarrow> string \<times> world" where
  "create_access_token env w room_name participant_identity =
     (let (now, w1) = time_time env w;
          timestamp = py_int now;
          expires = timestamp + 3600;
          td = token_data env room_name participant_identity expires;
          signature = hmac_sha256_hex env (livekit_api_secret (settings env)) td
      in (td @ '':'' @ signature, w1))"

subsection \<open>Inbound message classes (\<^verbatim>\<open>models/schemas.py\<close>)\<close>

text \<open>
  A \<^verbatim>\<open>str\<close> field takes a JSON string only; an \<^verbatim>\<open>Optional[str]\<close> field may also be
  absent or null. The fields a handler never reads are left to \<open>other_fields_ok\<close>.
\<close>

definition req_str_field :: "pydict \<Rightarrow> string \<Rightarrow> string option" where
  "req_str_field d k = (case dict_get d k of Some (PStr s) \<Rightarrow> Some s | _ \<Rightarrow> None)"

definition opt_str_field :: "pydict \<Rightarrow> string \<Rightarrow> string option option" where
  "opt_str_field d k =
     (case dict_get d k of
        None \<Rightarrow> Some None
      | Some PNone \<Rightarrow> Some None
      | Some (PStr s) \<Rightarrow> Some (Some s)
      | Some _ \<Rightarrow> None)"

definition opt_dict_field :: "pydict \<Rightarrow> string \<Rightarrow> pydict option option" where
  "opt_dict_field d k =
     (case dict_get d k of
        None \<Rightarrow> Some (Some [])
      | Some PNone \<Rightarrow> Some None
      | Some (PDict kvs) \<Rightarrow> Some (Some kvs)
      | Some _ \<Rightarrow> None)"

definition invalid :: "env \<Rightarrow> string \<Rightarrow> pydict \<Rightarrow> exn" where
  "invalid env cls d = ValidationError (validation_error_text env cls d)"

record StartSessionMessage =
  ssm_user_id :: string
  ssm_session_id :: "string option"
  ssm_config :: "pydict option"

record AudioInputMessage =
  aim_session_id :: string
  aim_data :: string

record ScreenShareFrameMessage =
  sfm_session_id :: string
  sfm_data :: string

record EndSessionMessage =
  esm_session_id :: string

definition validate_StartSessionMessage :: "env \<Rightarrow> pydict \<Rightarrow> exn + StartSessionMessage" where
  "validate_StartSessionMessage env d =
     (case (req_str_field d ''user_id'', opt_str_field d ''session_id'',
            opt_dict_field d ''config'') of
        (Some u, Some sid, Some cfg) \<Rightarrow>
          (if other_fields_ok env ''StartSessionMessage'' d
           then Inr \<lparr>ssm_user_id = u, ssm_session_id = sid, ssm_config = cfg\<rparr>
           else Inl (invalid env ''StartSessionMessage'' d))
      | _ \<Rightarrow> Inl (invalid env ''StartSessionMessage'' d))"

definition validate_AudioInputMessage :: "env \<Rightarrow> pydict \<Rightarrow> exn + AudioInputMessage" where
  "validate_AudioInputMessage env d =
     (case (req_str_field d ''session_id'', req_str_field d ''data'') of
        (Some sid, Some a) \<Rightarrow>
          (if other_fields_ok env ''AudioInputMessage'' d
           then Inr \<lparr>aim_session_id = sid, aim_data = a\<rparr>
           else Inl (invalid env ''AudioInputMessage'' d))
      | _ \<Rightarrow> Inl (invalid env ''AudioInputMessage'' d))"

definition validate_ScreenShareFrameMessage ::
  "env \<Rightarrow> pydict \<Rightarrow> exn + ScreenShareFrameMessage" where
  "validate_ScreenShareFrameMessage env d =
     (case (req_str_field d ''session_id'', req_str_field d ''data'') of
        (Some sid, Some a) \<Rightarrow>
          (if other_fields_ok env ''ScreenShareFrameMessage'' d
           then Inr \<lparr>sfm_session_id = sid, sfm_data = a\<rparr>
           else Inl (invalid env ''ScreenShareFrameMessage'' d))
      | _ \<Rightarrow> Inl (invalid env ''ScreenShareFrameMessage'' d))"

definition validate_EndSessionMessage :: "env \<Rightarrow> pydict \<Rightarrow> exn + EndSessionMessage" where
  "validate_EndSessionMessage env d =
     (case req_str_field d ''session_id'' of
        Some sid \<Rightarrow>
          (if other_fields_ok env ''EndSessionMessage'' d
           then Inr \<lparr>esm_session_id = sid\<rparr>
           else Inl (invalid env ''EndSessionMessage'' d))
      | None \<Rightarrow> Inl (invalid env ''EndSessionMessage'' d))"

subsection \<open>Outbound frames\<close>

text \<open>
  \<^verbatim>\<open>await websocket.send_text(json.dumps(v))\<close>: the socket takes every frame it is given, so
  the only failure is that of \<^verbatim>\<open>json.dumps\<close>.
\<close>

definition send_json :: "world \<Rightarrow> pyval \<Rightarrow> (exn + unit) \<times> world" where
  "send_json w v =
     (case json_dumps v of
        Inl e \<Rightarrow> (Inl e, w)
      | Inr frame \<Rightarrow> (Inr (), w\<lparr>sent := sent w @ [frame]\<rparr>))"

definition error_frame :: "string \<Rightarrow> string \<Rightarrow> pyval" where
  "error_frame code message =
     PDict [(''action'', PStr ''error''), (''code'', PStr code), (''message'', PStr message)]"

text \<open>
  \<^verbatim>\<open>TextResponseMessage(...).dict()\<close> and \<^verbatim>\<open>AudioOutputMessage(...).dict()\<close>: the fields of
  the base class first; \<^verbatim>\<open>timestamp\<close> is filled by its \<^verbatim>\<open>default_factory\<close> and stays
  a \<^verbatim>\<open>datetime\<close> object in the dict.
\<close>

definition TextResponseMessage_dict :: "string \<Rightarrow> string \<Rightarrow> real \<Rightarrow> pyval" where
  "TextResponseMessage_dict session_id txt ts =
     PDict [(''action'', PStr ''text_response''), (''timestamp'', PDatetime ts),
            (''session_id'', PStr session_id), (''user_id'', PNone),
            (''text'', PStr txt), (''confidence'', PNone)]"

definition AudioOutputMessage_dict ::
  "string \<Rightarrow> string \<Rightarrow> string \<Rightarrow> int \<Rightarrow> int \<Rightarrow> real \<Rightarrow> pyval" where
  "AudioOutputMessage_dict session_id dat fmt sample_rate channels ts =
     PDict [(''action'', PStr ''audio_output''), (''timestamp'', PDatetime ts),
            (''session_id'', PStr session_id), (''user_id'', PNone),
            (''data'', PStr dat), (''format'', PStr fmt),
            (''sample_rate'', PInt sample_rate), (''channels'', PInt channels)]"

definition session_started_frame :: "env \<Rightarrow> string \<Rightarrow> string \<Rightarrow> string \<Rightarrow> pyval" where
  "session_started_frame env session_id room_name access_token =
     PDict [(''action'', PStr ''session_started''), (''session_id'', PStr session_id),
            (''status'', PStr ''success''), (''message'', PStr ''Session started successfully''),
            (''livekit'', PDict [(''room_name'', PStr room_name),
                                 (''access_token'', PStr access_token),
                                 (''url'', PStr (livekit_url (settings env)))])]"

definition session_ended_frame :: "string \<Rightarrow> real \<Rightarrow> pyval" where
  "session_ended_frame session_id duration =
     PDict [(''action'', PStr ''session_ended''), (''session_id'', PStr session_id),
            (''status'', PStr ''success''), (''message'', PStr ''Session ended successfully''),
            (''duration'', PFloat duration)]"

definition session_not_found :: "string \<Rightarrow> pyval" where
  "session_not_found session_id =
     error_frame ''SESSION_NOT_FOUND'' (''Session '' @ session_id @ '' not found'')"

subsection \<open>The connection manager\<close>

definition disconnect :: "world \<Rightarrow> string \<Rightarrow> world" where
  "disconnect w session_id =
     w\<lparr>active_connections := (active_connections w)(session_id := None),
       session_connectors := (session_connectors w)(session_id := None),
       room_sessions := (room_sessions w)(session_id := None)\<rparr>"

subsection \<open>The four handlers\<close>

text \<open>
  Each handler is one \<^verbatim>\<open>try\<close> whose \<^verbatim>\<open>except Exception\<close> sends an error frame. The
  function with suffix \<open>_try\<close> is the body of that \<^verbatim>\<open>try\<close>; \<open>Inl e\<close> is the exception
  \<open>e\<close> raised in it, together with the world as changed up to then.
\<close>

text \<open>\<^verbatim>\<open>start_message.session_id or str(uuid.uuid4())\<close>.\<close>

definition chosen_session_id :: "env \<Rightarrow> world \<Rightarrow> StartSessionMessage \<Rightarrow> string \<times> world" where
  "chosen_session_id env w start_message =
     (case ssm_session_id start_message of
        Some s \<Rightarrow>
          (if s \<noteq> [] then (s, w)
           else (uuid4 env (uuids w), w\<lparr>uuids := Suc (uuids w)\<rparr>))
      | None \<Rightarrow> (uuid4 env (uuids w), w\<lparr>uuids := Suc (uuids w)\<rparr>))"

definition handle_start_session_try :: "env \<Rightarrow> world \<Rightarrow> pydict \<Rightarrow> (exn + unit) \<times> world" where
  "handle_start_session_try env w dat =
     (case validate_StartSessionMessage env dat of
        Inl e \<Rightarrow> (Inl e, w)
      | Inr start_message \<Rightarrow>
          (let (session_id, w1) = chosen_session_id env w start_message;
               user_id = ssm_user_id start_message;
               room_name = livekit_room_prefix (settings env) @ ''-'' @ session_id;
               (access_token, w2) = create_access_token env w1 room_name user_id
           in case initialize env (new_connector env) of
                (Inl e, c) \<Rightarrow> (Inl e, w2)
              | (Inr u, c) \<Rightarrow>
                  (case start_session env c w2 session_id user_id (ssm_config start_message) of
                     (Inl e, c1, w3) \<Rightarrow> (Inl e, w3)
                   | (Inr result, c1, w3) \<Rightarrow>
                       (let w4 = w3\<lparr>session_connectors :=
                                      (session_connectors w3)(session_id \<mapsto> c1)\<rparr>;
                            (now, w5) = time_time env w4;
                            w6 = w5\<lparr>room_sessions := (room_sessions w5)(session_id \<mapsto>
                                      \<lparr>r_room_name = room_name, r_user_id = user_id,
                                       r_access_token = access_token, r_start_time = now,
                                       r_status = ''active''\<rparr>)\<rparr>
                        in send_json w6
                             (session_started_frame env session_id room_name access_token)))))"

definition handle_start_session :: "env \<Rightarrow> world \<Rightarrow> pydict \<Rightarrow> (exn + unit) \<times> world" where
  "handle_start_session env w dat =
     (case handle_start_session_try env w dat of
        (Inr u, w1) \<Rightarrow> (Inr u, w1)
      | (Inl e, w1) \<Rightarrow>
          send_json w1
            (error_frame ''SESSION_START_ERROR'' (''Failed to start session: '' @ exn_str e)))"

text \<open>
  The body of \<^verbatim>\<open>async for response in connector.process_audio_input(...)\<close> for one
  response, and the loop. An exception in the body leaves the loop; the generator is not
  resumed.
\<close>

definition audio_response_body :: "env \<Rightarrow> world \<Rightarrow> string \<Rightarrow> event \<Rightarrow> (exn + unit) \<times> world" where
  "audio_response_body env w session_id response =
     (case response of
        TextResponseEvent content sid ts \<Rightarrow>
          (let (stamp, w1) = time_time env w
           in send_json w1 (TextResponseMessage_dict session_id content stamp))
      | AudioResponseEvent content sid ts note \<Rightarrow>
          (let (stamp, w1) = time_time env w
           in send_json w1 (AudioOutputMessage_dict session_id [] ''wav'' 16000 1 stamp))
      | ErrorEvent err sid ts \<Rightarrow>
          send_json w
            (error_frame ''AUDIO_PROCESSING_ERROR'' ''Audio processing failed, please try again''))"

fun consume_audio :: "env \<Rightarrow> world \<Rightarrow> string \<Rightarrow> pending list \<Rightarrow> (exn + unit) \<times> world" where
  "consume_audio env w session_id [] = (Inr (), w)"
| "consume_audio env w session_id (p # ps) =
     (let (response, w1) = resume env w p
      in case audio_response_body env w1 session_id response of
           (Inl e, w2) \<Rightarrow> (Inl e, w2)
         | (Inr u, w2) \<Rightarrow> consume_audio env w2 session_id ps)"

definition handle_audio_input_try :: "env \<Rightarrow> world \<Rightarrow> pydict \<Rightarrow> (exn + unit) \<times> world" where
  "handle_audio_input_try env w dat =
     (case validate_AudioInputMessage env dat of
        Inl e \<Rightarrow> (Inl e, w)
      | Inr audio_message \<Rightarrow>
          (let session_id = aim_session_id audio_message
           in case session_connectors w session_id of
                None \<Rightarrow> send_json w (session_not_found session_id)
              | Some c \<Rightarrow>
                  (let (pendings, c1, w1) =
                         process_audio_input env c w (aim_data audio_message) session_id;
                       w2 = w1\<lparr>session_connectors :=
                                 (session_connectors w1)(session_id \<mapsto> c1)\<rparr>
                   in case consume_audio env w2 session_id pendings of
                        (Inr u, w3) \<Rightarrow> (Inr u, w3)
                      | (Inl processing_error, w3) \<Rightarrow>
                          send_json w3
                            (error_frame ''CRITICAL_AUDIO_ERROR''
                               ''Audio processing unavailable, please restart session''))))"

definition handle_audio_input :: "env \<Rightarrow> world \<Rightarrow> pydict \<Rightarrow> (exn + unit) \<times> world" where
  "handle_audio_input env w dat =
     (case handle_audio_input_try env w dat of
        (Inr u, w1) \<Rightarrow> (Inr u, w1)
      | (Inl e, w1) \<Rightarrow>
          send_json w1
            (error_frame ''AUDIO_PROCESSING_ERROR'' (''Failed to process audio: '' @ exn_str e)))"

definition screen_response_body :: "env \<Rightarrow> world \<Rightarrow> string \<Rightarrow> event \<Rightarrow> (exn + unit) \<times> world" where
  "screen_response_body env w session_id response =
     (case response of
        TextResponseEvent content sid ts \<Rightarrow>
          (let (stamp, w1) = time_time env w
           in send_json w1 (TextResponseMessage_dict session_id content stamp))
      | AudioResponseEvent content sid ts note \<Rightarrow> (Inr (), w)
      | ErrorEvent err sid ts \<Rightarrow>
          send_json w
            (error_frame ''SCREEN_SHARE_ERROR'' ''Screen analysis failed, please try again''))"

fun consume_screen :: "env \<Rightarrow> world \<Rightarrow> string \<Rightarrow> pending list \<Rightarrow> (exn + unit) \<times> world" where
  "consume_screen env w session_id [] = (Inr (), w)"
| "consume_screen env w session_id (p # ps) =
     (let (response, w1) = resume env w p
      in case screen_response_body env w1 session_id response of
           (Inl e, w2) \<Rightarrow> (Inl e, w2)
         | (Inr u, w2) \<Rightarrow> consume_screen env w2 session_id ps)"

definition handle_screen_share_frame_try ::
  "env \<Rightarrow> world \<Rightarrow> pydict \<Rightarrow> (exn + unit) \<times> world" where
  "handle_screen_share_frame_try env w dat =
     (case validate_ScreenShareFrameMessage env dat of
        Inl e \<Rightarrow> (Inl e, w)
      | Inr screen_message \<Rightarrow>
          (let session_id = sfm_session_id screen_message
           in case session_connectors w session_id of
                None \<Rightarrow> send_json w (session_not_found session_id)
              | Some c \<Rightarrow>
                  (let (pendings, c1, w1) =
                         process_screen_share env c w (sfm_data screen_message) session_id;
                       w2 = w1\<lparr>session_connectors :=
                                 (session_connectors w1)(session_id \<mapsto> c1)\<rparr>
                   in case consume_screen env w2 session_id pendings of
                        (Inr u, w3) \<Rightarrow> (Inr u, w3)
                      | (Inl processing_error, w3) \<Rightarrow>
                          send_json w3
                            (error_frame ''CRITICAL_SCREEN_ERROR''
                               ''Screen analysis unavailable, please restart session''))))"

definition handle_screen_share_frame :: "env \<Rightarrow> world \<Rightarrow> pydict \<Rightarrow> (exn + unit) \<times> world" where
  "handle_screen_share_frame env w dat =
     (case handle_screen_share_frame_try env w dat of
        (Inr u, w1) \<Rightarrow> (Inr u, w1)
      | (Inl e, w1) \<Rightarrow>
          send_json w1
            (error_frame ''SCREEN_SHARE_ERROR''
               (''Failed to process screen share: '' @ exn_str e)))"

definition handle_end_session_try :: "env \<Rightarrow> world \<Rightarrow> pydict \<Rightarrow> (exn + unit) \<times> world" where
  "handle_end_session_try env w dat =
     (case validate_EndSessionMessage env dat of
        Inl e \<Rightarrow> (Inl e, w)
      | Inr end_message \<Rightarrow>
          (let session_id = esm_session_id end_message
           in case session_connectors w session_id of
                None \<Rightarrow> send_json w (session_not_found session_id)
              | Some c \<Rightarrow>
                  (case end_session env c w session_id of
                     (Inl e, c1, w1) \<Rightarrow> (Inl e, w1)
                   | (Inr duration, c1, w1) \<Rightarrow>
                       (let w2 = w1\<lparr>session_connectors :=
                                      (session_connectors w1)(session_id \<mapsto> c1)\<rparr>;
                            w3 = disconnect w2 session_id
                        in send_json w3 (session_ended_frame session_id duration)))))"

definition handle_end_session :: "env \<Rightarrow> world \<Rightarrow> pydict \<Rightarrow> (exn + unit) \<times> world" where
  "handle_end_session env w dat =
     (case handle_end_session_try env w dat of
        (Inr u, w1) \<Rightarrow> (Inr u, w1)
      | (Inl e, w1) \<Rightarrow>
          send_json w1
            (error_frame ''SESSION_END_ERROR'' (''Failed to end session: '' @ exn_str e)))"

subsection \<open>The message loop: \<^verbatim>\<open>livekit_endpoint\<close>\<close>

text \<open>
  A text frame is given by what \<^verbatim>\<open>json.loads\<close> makes of it: it raises an exception,
  or returns a value. The exception is \<^verbatim>\<open>JSONDecodeError\<close> for text the parser
  refuses; it is another one where the parser gives up first (\<^verbatim>\<open>RecursionError\<close> on
  deep nesting, a \<^verbatim>\<open>ValueError\<close> that is not a \<^verbatim>\<open>JSONDecodeError\<close> on an over-long
  integer literal).
\<close>

datatype inbound = LoadsRaises exn | Parsed pyval

text \<open>What \<^verbatim>\<open>f"{action}"\<close> writes.\<close>

definition py_str :: "env \<Rightarrow> pyval \<Rightarrow> string" where
  "py_str env v =
     (case v of
        PNone \<Rightarrow> ''None''
      | PStr s \<Rightarrow> s
      | PBool b \<Rightarrow> (if b then ''True'' else ''False'')
      | PInt i \<Rightarrow> str_int i
      | _ \<Rightarrow> py_repr env v)"

definition process_message_try :: "env \<Rightarrow> world \<Rightarrow> inbound \<Rightarrow> (exn + unit) \<times> world" where
  "process_message_try env w message =
     (case message of
        LoadsRaises e \<Rightarrow> (Inl e, w)
      | Parsed (PDict dat) \<Rightarrow>
          (let action = (case dict_get dat ''action'' of None \<Rightarrow> PNone | Some a \<Rightarrow> a)
           in if action = PStr ''start_session'' then handle_start_session env w dat
              else if action = PStr ''audio_input'' then handle_audio_input env w dat
              else if action = PStr ''screen_share_frame'' then handle_screen_share_frame env w dat
              else if action = PStr ''end_session'' then handle_end_session env w dat
              else send_json w
                     (error_frame ''INVALID_ACTION'' (''Unknown action: '' @ py_str env action)))
      | Parsed v \<Rightarrow> (Inl (AttributeError ''object has no attribute get''), w))"

definition process_message :: "env \<Rightarrow> world \<Rightarrow> inbound \<Rightarrow> (exn + unit) \<times> world" where
  "process_message env w message =
     (case process_message_try env w message of
        (Inr u, w1) \<Rightarrow> (Inr u, w1)
      | (Inl (JSONDecodeError m), w1) \<Rightarrow>
          send_json w1 (error_frame ''INVALID_JSON'' ''Invalid JSON format'')
      | (Inl e, w1) \<Rightarrow>
          send_json w1 (error_frame ''INTERNAL_ERROR'' ''Internal server error''))"

text \<open>
  The loop over the frames of one connection. An exception that leaves
  \<open>process_message\<close> ends the loop (the outer \<^verbatim>\<open>except Exception\<close> logs it; its
  \<^verbatim>\<open>session_id\<close> is still \<^verbatim>\<open>None\<close>, so nothing is removed). The result says whether the
  loop was left that way.
\<close>

fun livekit_endpoint :: "env \<Rightarrow> world \<Rightarrow> inbound list \<Rightarrow> exn option \<times> world" where
  "livekit_endpoint env w [] = (None, w)"
| "livekit_endpoint env w (message # rest) =
     (case process_message env w message of
        (Inl e, w1) \<Rightarrow> (Some e, w1)
      | (Inr u, w1) \<Rightarrow> livekit_endpoint env w1 rest)"

definition initial_world :: world where
  "initial_world =
     \<lparr>active_connections = Map.empty, session_connectors = Map.empty,
      room_sessions = Map.empty, sent = [], ticks = 0, ai_calls = 0, uuids = 0\<rparr>"

section \<open>Vocabulary of the properties\<close>

text \<open>
  A connector is active for an identifier when it is connected, its model is built and
  its session dict carries that identifier with status \<^verbatim>\<open>"active"\<close>; a session is
  registered and active when the manager maps its identifier to such a connector.
\<close>

definition active_connector :: "connector \<Rightarrow> string \<Rightarrow> bool" where
  "active_connector c session_id =
     (is_connected c \<and> genai_model c \<noteq> None \<and> is_session_active c session_id)"

definition registered_active :: "world \<Rightarrow> string \<Rightarrow> bool" where
  "registered_active w session_id =
     (case session_connectors w session_id of
        None \<Rightarrow> False
      | Some c \<Rightarrow> active_connector c session_id)"

text \<open>
  \<open>session_ok env n sid c\<close>: the connector is active for \<open>sid\<close> and its session started at
  one of the first \<open>n\<close> clock readings. \<open>world_ok\<close>: this holds of every registered
  connector, for the readings taken so far.
\<close>

definition session_ok :: "env \<Rightarrow> nat \<Rightarrow> string \<Rightarrow> connector \<Rightarrow> bool" where
  "session_ok env n sid c =
     (active_connector c sid \<and>
      (\<exists>s k. session c = Some s \<and> k < n \<and> s_start_time s = clock env k))"

definition world_ok :: "env \<Rightarrow> world \<Rightarrow> bool" where
  "world_ok env w =
     (\<forall>sid c. session_connectors w sid = Some c \<longrightarrow> session_ok env (ticks w) sid c)"

text \<open>The session dict that \<^verbatim>\<open>start_session\<close> assigns, with a given history.\<close>

definition started_session ::
  "string \<Rightarrow> string \<Rightarrow> pydict option \<Rightarrow> real \<Rightarrow> history_entry list \<Rightarrow> session" where
  "started_session sid uid cfg ts hist =
     \<lparr>s_id = sid, s_user_id = uid, s_history = hist,
      s_config = (case cfg of None \<Rightarrow> [] | Some d \<Rightarrow> d),
      s_start_time = ts, s_status = ''active'', s_end_time = None\<rparr>"

text \<open>The fixed error frames of the two processing handlers.\<close>

definition audio_processing_error :: pyval where
  "audio_processing_error =
     error_frame ''AUDIO_PROCESSING_ERROR'' ''Audio processing failed, please try again''"

definition critical_audio_error :: pyval where
  "critical_audio_error =
     error_frame ''CRITICAL_AUDIO_ERROR'' ''Audio processing unavailable, please restart session''"

definition screen_share_error :: pyval where
  "screen_share_error =
     error_frame ''SCREEN_SHARE_ERROR'' ''Screen analysis failed, please try again''"

definition critical_screen_error :: pyval where
  "critical_screen_error =
     error_frame ''CRITICAL_SCREEN_ERROR'' ''Screen analysis unavailable, please restart session''"

subsection \<open>A concrete environment and world\<close>

text \<open>
  An environment with the default settings, every payload decodable, every unread field
  accepted, and a stand-in for HMAC-SHA256; the model and the clock are arguments. The
  world \<open>demo_world\<close> has one registered session \<^verbatim>\<open>s1\<close>.
\<close>

definition demo_settings :: settings where
  "demo_settings =
     \<lparr>livekit_api_key = ''devkey'', livekit_api_secret = ''secret'',
      livekit_room_prefix = ''voice-ai'', livekit_url = ''ws://localhost:7880'',
      gemini_model = ''gemini-1.5-flash''\<rparr>"

definition demo_env :: "(nat \<Rightarrow> ai_request \<Rightarrow> ai_outcome) \<Rightarrow> (nat \<Rightarrow> real) \<Rightarrow> env" where
  "demo_env ai clk =
     \<lparr>settings = demo_settings, model_generate_content = ai, model_init_error = None,
      clock = clk, uuid4 = (\<lambda>n. ''generated-'' @ str_nat n),
      b64decode_error = (\<lambda>d. None),
      hmac_sha256_hex = (\<lambda>key msg. ''hmac('' @ key @ '','' @ msg @ '')''),
      other_fields_ok = (\<lambda>cls d. True),
      validation_error_text = (\<lambda>cls d. ''validation error for '' @ cls),
      py_repr = (\<lambda>v. ''<repr>'')\<rparr>"

definition model_raises :: "nat \<Rightarrow> ai_request \<Rightarrow> ai_outcome" where
  "model_raises n req = AiRaises ''503 service unavailable''"

definition model_says :: "string \<Rightarrow> nat \<Rightarrow> ai_request \<Rightarrow> ai_outcome" where
  "model_says t n req = AiReturns (Some (Response (Some t)))"

definition model_returns_none :: "nat \<Rightarrow> ai_request \<Rightarrow> ai_outcome" where
  "model_returns_none n req = AiReturns None"

definition demo_session :: session where
  "demo_session =
     \<lparr>s_id = ''s1'', s_user_id = ''u1'', s_history = [], s_config = [],
      s_start_time = 5, s_status = ''active'', s_end_time = None\<rparr>"

definition demo_connector :: connector where
  "demo_connector =
     \<lparr>model_name = ''gemini-1.5-flash'', genai_model = Some ''gemini-1.5-flash'',
      session = Some demo_session, is_connected = True\<rparr>"

definition demo_room :: room_session where
  "demo_room =
     \<lparr>r_room_name = ''voice-ai-s1'', r_user_id = ''u1'', r_access_token = ''tok'',
      r_start_time = 5, r_status = ''active''\<rparr>"

definition demo_world :: world where
  "demo_world =
     \<lparr>active_connections = Map.empty, session_connectors = [''s1'' \<mapsto> demo_connector],
      room_sessions = [''s1'' \<mapsto> demo_room], sent = [], ticks = 10, ai_calls = 0,
      uuids = 0\<rparr>"

definition start_s1 :: pydict where
  "start_s1 = [(''action'', PStr ''start_session''), (''user_id'', PStr ''u1''),
               (''session_id'', PStr ''s1'')]"

definition audio_s1 :: pydict where
  "audio_s1 = [(''action'', PStr ''audio_input''), (''session_id'', PStr ''s1''),
               (''data'', PStr ''AAAA'')]"

definition screen_s1 :: pydict where
  "screen_s1 = [(''action'', PStr ''screen_share_frame''), (''session_id'', PStr ''s1''),
                (''data'', PStr ''iVBORw=='')]"

definition end_s1 :: pydict where
  "end_s1 = [(''action'', PStr ''end_session''), (''session_id'', PStr ''s1'')]"

text \<open>A clock that is read twice within one second: 100.2 at reading 0, 100.7 at reading 10.\<close>

definition subsecond_clock :: "nat \<Rightarrow> real" where
  "subsecond_clock n = 1002 / 10 + real n / 20"

text \<open>A clock that is set back by one second at every reading, from 100.\<close>

definition receding_clock :: "nat \<Rightarrow> real" where
  "receding_clock n = 100 - real n"

text \<open>
  The frames one audio submission to an active session is answered with, given the
  number \<open>n\<close> of model calls made before it, and the number of model calls after it;
  and the frames a list of submissions is answered with, one block per submission in
  the order of the list.
\<close>

definition audio_reply :: "env \<Rightarrow> nat \<Rightarrow> string \<Rightarrow> pyval list \<times> nat" where
  "audio_reply env n a =
     (case b64decode_error env a of
        Some m \<Rightarrow> ([audio_processing_error], n)
      | None \<Rightarrow>
          (case model_generate_content env n (AudioPrompt a) of
             AiRaises msg \<Rightarrow> ([audio_processing_error], Suc n)
           | AiReturns r \<Rightarrow>
               (case response_text r of
                  None \<Rightarrow> ([], Suc n)
                | Some t \<Rightarrow> ([critical_audio_error], Suc n))))"

fun audio_replies :: "env \<Rightarrow> nat \<Rightarrow> string list \<Rightarrow> pyval list" where
  "audio_replies env n [] = []"
| "audio_replies env n (a # rest) =
     fst (audio_reply env n a) @ audio_replies env (snd (audio_reply env n a)) rest"

section \<open>Auxiliary facts\<close>

subsection \<open>Sending frames\<close>

lemma send_error_frame:
  "send_json w (error_frame code msg) = (Inr (), w\<lparr>sent := sent w @ [error_frame code msg]\<rparr>)"
  by (simp add: send_json_def json_dumps_def error_frame_def)

lemma send_session_not_found:
  "send_json w (session_not_found sid) = (Inr (), w\<lparr>sent := sent w @ [session_not_found sid]\<rparr>)"
  by (simp add: session_not_found_def send_error_frame)

lemma send_session_started:
  "send_json w (session_started_frame env sid room tok) =
     (Inr (), w\<lparr>sent := sent w @ [session_started_frame env sid room tok]\<rparr>)"
  by (simp add: send_json_def json_dumps_def session_started_frame_def)

lemma send_session_ended:
  "send_json w (session_ended_frame sid d) =
     (Inr (), w\<lparr>sent := sent w @ [session_ended_frame sid d]\<rparr>)"
  by (simp add: send_json_def json_dumps_def session_ended_frame_def)

text \<open>The two pydantic dicts hold a \<^verbatim>\<open>datetime\<close>, so \<^verbatim>\<open>json.dumps\<close> raises on them.\<close>

lemma send_text_response_raises:
  "send_json w (TextResponseMessage_dict sid t ts) =
     (Inl (TypeError ''Object of type datetime is not JSON serializable''), w)"
  by (simp add: send_json_def json_dumps_def TextResponseMessage_dict_def)

lemma send_audio_output_raises:
  "send_json w (AudioOutputMessage_dict sid d f sr ch ts) =
     (Inl (TypeError ''Object of type datetime is not JSON serializable''), w)"
  by (simp add: send_json_def json_dumps_def AudioOutputMessage_dict_def)

subsection \<open>The generators on an active connector\<close>

lemma active_connectorD:
  "active_connector c sid \<Longrightarrow>
     is_connected c \<and> (\<exists>m. genai_model c = Some m) \<and>
     (\<exists>s. session c = Some s \<and> s_id s = sid \<and> s_status s = ''active'')"
  by (auto simp: active_connector_def is_session_active_def split: option.splits)

lemma process_audio_input_undecodable:
  assumes "active_connector c sid" "b64decode_error env d = Some m"
  shows "process_audio_input env c w d sid = ([YieldError m sid], c, w)"
  using assms active_connectorD[OF assms(1)]
  by (auto simp: process_audio_input_def)

lemma process_audio_input_raises:
  assumes "active_connector c sid" "b64decode_error env d = None"
    "model_generate_content env (ai_calls w) (AudioPrompt d) = AiRaises msg"
  shows "process_audio_input env c w d sid =
           ([YieldError msg sid], c, w\<lparr>ai_calls := Suc (ai_calls w)\<rparr>)"
  using assms active_connectorD[OF assms(1)]
  by (auto simp: process_audio_input_def connector_generate_content_def)

lemma process_audio_input_silent:
  assumes "active_connector c sid" "b64decode_error env d = None"
    "model_generate_content env (ai_calls w) (AudioPrompt d) = AiReturns r"
    "response_text r = None"
  shows "process_audio_input env c w d sid = ([], c, w\<lparr>ai_calls := Suc (ai_calls w)\<rparr>)"
  using assms active_connectorD[OF assms(1)]
  by (auto simp: process_audio_input_def connector_generate_content_def)

lemma process_audio_input_text:
  assumes "active_connector c sid" "b64decode_error env d = None"
    "model_generate_content env (ai_calls w) (AudioPrompt d) = AiReturns r"
    "response_text r = Some t"
  shows "process_audio_input env c w d sid =
           ([YieldText t sid, YieldAudio sid],
            append_history (append_history c (UserAudio (clock env (ticks w)) sid))
              (AssistantText t (clock env (Suc (ticks w))) sid),
            w\<lparr>ai_calls := Suc (ai_calls w), ticks := Suc (Suc (ticks w))\<rparr>)"
  using assms active_connectorD[OF assms(1)]
  by (auto simp: process_audio_input_def connector_generate_content_def time_time_def)

lemma process_screen_share_raises:
  assumes "active_connector c sid"
    "model_generate_content env (ai_calls w) (ScreenPrompt d) = AiRaises msg"
  shows "process_screen_share env c w d sid =
           ([YieldError msg sid], c, w\<lparr>ai_calls := Suc (ai_calls w)\<rparr>)"
  using assms active_connectorD[OF assms(1)]
  by (auto simp: process_screen_share_def connector_generate_content_def)

lemma process_screen_share_silent:
  assumes "active_connector c sid"
    "model_generate_content env (ai_calls w) (ScreenPrompt d) = AiReturns r"
    "response_text r = None"
  shows "process_screen_share env c w d sid = ([], c, w\<lparr>ai_calls := Suc (ai_calls w)\<rparr>)"
  using assms active_connectorD[OF assms(1)]
  by (auto simp: process_screen_share_def connector_generate_content_def)

subsection \<open>The consuming loops\<close>

lemma consume_audio_error:
  "consume_audio env w sid [YieldError e sid'] =
     (Inr (), w\<lparr>ticks := Suc (ticks w), sent := sent w @ [audio_processing_error]\<rparr>)"
  by (simp add: resume_def time_time_def audio_response_body_def send_error_frame
      audio_processing_error_def)

lemma consume_audio_text:
  "consume_audio env w sid (YieldText t sid' # ps) =
     (Inl (TypeError ''Object of type datetime is not JSON serializable''),
      w\<lparr>ticks := Suc (Suc (ticks w))\<rparr>)"
  by (simp add: resume_def time_time_def audio_response_body_def send_text_response_raises)

lemma consume_screen_error:
  "consume_screen env w sid [YieldError e sid'] =
     (Inr (), w\<lparr>ticks := Suc (ticks w), sent := sent w @ [screen_share_error]\<rparr>)"
  by (simp add: resume_def time_time_def screen_response_body_def send_error_frame
      screen_share_error_def)

subsection \<open>The processing handlers on a registered session\<close>

lemma handle_audio_input_unregistered:
  assumes "session_connectors w sid = None"
    and "validate_AudioInputMessage env dat = Inr am" and "aim_session_id am = sid"
  shows "handle_audio_input env w dat =
           (Inr (), w\<lparr>sent := sent w @ [session_not_found sid]\<rparr>)"
  using assms
  by (simp add: handle_audio_input_def handle_audio_input_try_def send_session_not_found)

lemma handle_screen_share_frame_unregistered:
  assumes "session_connectors w sid = None"
    and "validate_ScreenShareFrameMessage env dat = Inr sm" and "sfm_session_id sm = sid"
  shows "handle_screen_share_frame env w dat =
           (Inr (), w\<lparr>sent := sent w @ [session_not_found sid]\<rparr>)"
  using assms
  by (simp add: handle_screen_share_frame_def handle_screen_share_frame_try_def
      send_session_not_found)

lemma handle_audio_input_registered:
  assumes "validate_AudioInputMessage env dat = Inr am" "aim_session_id am = sid"
    "session_connectors w sid = Some c"
  shows "handle_audio_input env w dat =
     (let (pendings, c1, w1) = process_audio_input env c w (aim_data am) sid;
          w2 = w1\<lparr>session_connectors := (session_connectors w1)(sid \<mapsto> c1)\<rparr>
      in case consume_audio env w2 sid pendings of
           (Inr u, w3) \<Rightarrow> (Inr (), w3)
         | (Inl e, w3) \<Rightarrow> (Inr (), w3\<lparr>sent := sent w3 @ [critical_audio_error]\<rparr>))"
  using assms
  by (simp add: handle_audio_input_def handle_audio_input_try_def send_error_frame
      critical_audio_error_def split_beta Let_def split: sum.splits prod.splits)

lemma handle_screen_share_frame_registered:
  assumes "validate_ScreenShareFrameMessage env dat = Inr sm" "sfm_session_id sm = sid"
    "session_connectors w sid = Some c"
  shows "handle_screen_share_frame env w dat =
     (let (pendings, c1, w1) = process_screen_share env c w (sfm_data sm) sid;
          w2 = w1\<lparr>session_connectors := (session_connectors w1)(sid \<mapsto> c1)\<rparr>
      in case consume_screen env w2 sid pendings of
           (Inr u, w3) \<Rightarrow> (Inr (), w3)
         | (Inl e, w3) \<Rightarrow> (Inr (), w3\<lparr>sent := sent w3 @ [critical_screen_error]\<rparr>))"
  using assms
  by (simp add: handle_screen_share_frame_def handle_screen_share_frame_try_def send_error_frame
      critical_screen_error_def split_beta Let_def split: sum.splits prod.splits)

lemma handle_audio_input_undecodable:
  assumes "validate_AudioInputMessage env dat = Inr am" "aim_session_id am = sid"
    and "session_connectors w sid = Some c" "active_connector c sid"
    and "b64decode_error env (aim_data am) = Some m"
  shows "handle_audio_input env w dat =
           (Inr (), w\<lparr>ticks := Suc (ticks w), sent := sent w @ [audio_processing_error]\<rparr>)"
  using assms
  by (simp add: handle_audio_input_registered process_audio_input_undecodable
      consume_audio_error map_upd_triv del: consume_audio.simps)

lemma handle_audio_input_raises:
  assumes "validate_AudioInputMessage env dat = Inr am" "aim_session_id am = sid"
    and "session_connectors w sid = Some c" "active_connector c sid"
    and "b64decode_error env (aim_data am) = None"
    and "model_generate_content env (ai_calls w) (AudioPrompt (aim_data am)) = AiRaises msg"
  shows "handle_audio_input env w dat =
           (Inr (), w\<lparr>ai_calls := Suc (ai_calls w), ticks := Suc (ticks w),
                       sent := sent w @ [audio_processing_error]\<rparr>)"
  using assms
  by (simp add: handle_audio_input_registered process_audio_input_raises consume_audio_error
      map_upd_triv del: consume_audio.simps)

lemma handle_audio_input_text:
  assumes "validate_AudioInputMessage env dat = Inr am" "aim_session_id am = sid"
    and "session_connectors w sid = Some c" "active_connector c sid"
    and "b64decode_error env (aim_data am) = None"
    and "model_generate_content env (ai_calls w) (AudioPrompt (aim_data am)) = AiReturns r"
    and "response_text r = Some t"
  shows "handle_audio_input env w dat =
           (Inr (), w\<lparr>ai_calls := Suc (ai_calls w), ticks := ticks w + 4,
               session_connectors := (session_connectors w)(sid \<mapsto>
                  append_history (append_history c (UserAudio (clock env (ticks w)) sid))
                     (AssistantText t (clock env (Suc (ticks w))) sid)),
               sent := sent w @ [critical_audio_error]\<rparr>)"
  using assms
  by (simp add: handle_audio_input_registered process_audio_input_text consume_audio_text
      del: consume_audio.simps)

lemma handle_audio_input_silent:
  assumes "validate_AudioInputMessage env dat = Inr am" "aim_session_id am = sid"
    and "session_connectors w sid = Some c" "active_connector c sid"
    and "b64decode_error env (aim_data am) = None"
    and "model_generate_content env (ai_calls w) (AudioPrompt (aim_data am)) = AiReturns r"
    and "response_text r = None"
  shows "handle_audio_input env w dat = (Inr (), w\<lparr>ai_calls := Suc (ai_calls w)\<rparr>)"
  using assms
  by (simp add: handle_audio_input_registered process_audio_input_silent map_upd_triv)

lemma handle_screen_share_frame_silent:
  assumes "validate_ScreenShareFrameMessage env dat = Inr sm" "sfm_session_id sm = sid"
    and "session_connectors w sid = Some c" "active_connector c sid"
    and "model_generate_content env (ai_calls w) (ScreenPrompt (sfm_data sm)) = AiReturns r"
    and "response_text r = None"
  shows "handle_screen_share_frame env w dat = (Inr (), w\<lparr>ai_calls := Suc (ai_calls w)\<rparr>)"
  using assms
  by (simp add: handle_screen_share_frame_registered process_screen_share_silent map_upd_triv)

subsection \<open>The concrete inputs\<close>

lemma demo_connector_active: "active_connector demo_connector ''s1''"
  by (simp add: active_connector_def demo_connector_def is_session_active_def demo_session_def)

lemma demo_world_s1: "session_connectors demo_world ''s1'' = Some demo_connector"
  by (simp add: demo_world_def)

lemma validate_audio_s1:
  "validate_AudioInputMessage (demo_env ai clk) audio_s1 =
     Inr \<lparr>aim_session_id = ''s1'', aim_data = ''AAAA''\<rparr>"
  by (simp add: validate_AudioInputMessage_def audio_s1_def req_str_field_def dict_get_def
      demo_env_def)

lemma validate_screen_s1:
  "validate_ScreenShareFrameMessage (demo_env ai clk) screen_s1 =
     Inr \<lparr>sfm_session_id = ''s1'', sfm_data = ''iVBORw==''\<rparr>"
  by (simp add: validate_ScreenShareFrameMessage_def screen_s1_def req_str_field_def
      dict_get_def demo_env_def)

lemma validate_end_s1:
  "validate_EndSessionMessage (demo_env ai clk) end_s1 = Inr \<lparr>esm_session_id = ''s1''\<rparr>"
  by (simp add: validate_EndSessionMessage_def end_s1_def req_str_field_def dict_get_def
      demo_env_def)

lemma validate_start_s1:
  "validate_StartSessionMessage (demo_env ai clk) start_s1 =
     Inr \<lparr>ssm_user_id = ''u1'', ssm_session_id = Some ''s1'', ssm_config = Some []\<rparr>"
  by (simp add: validate_StartSessionMessage_def start_s1_def req_str_field_def
      opt_str_field_def opt_dict_field_def dict_get_def demo_env_def)

lemma demo_env_simps:
  "model_generate_content (demo_env ai clk) = ai"
  "clock (demo_env ai clk) = clk"
  "b64decode_error (demo_env ai clk) d = None"
  "model_init_error (demo_env ai clk) = None"
  "settings (demo_env ai clk) = demo_settings"
  by (simp_all add: demo_env_def)


subsection \<open>Decimal text is injective and has no colon\<close>

lemma digit_char_inj: "a < 10 \<Longrightarrow> b < 10 \<Longrightarrow> digit_char a = digit_char b \<Longrightarrow> a = b"
proof -
  assume a: "a < 10" and b: "b < 10" and e: "digit_char a = digit_char b"
  from e have "(of_char (digit_char a) :: nat) = of_char (digit_char b)" by simp
  then have "(48 + a) mod 256 = (48 + b) mod 256" by (simp add: digit_char_def)
  with a b show "a = b" by simp
qed

lemma digit_char_not_colon: "d < 10 \<Longrightarrow> digit_char d \<noteq> CHR '':''"
proof
  assume d: "d < 10" and e: "digit_char d = CHR '':''"
  from e have "(of_char (digit_char d) :: nat) = of_char (CHR '':'')" by simp
  then have "(48 + d) mod 256 = 58" by (simp add: digit_char_def)
  with d show False by simp
qed

lemma digit_char_not_minus: "d < 10 \<Longrightarrow> digit_char d \<noteq> CHR ''-''"
proof
  assume d: "d < 10" and e: "digit_char d = CHR ''-''"
  from e have "(of_char (digit_char d) :: nat) = of_char (CHR ''-'')" by simp
  then have "(48 + d) mod 256 = 45" by (simp add: digit_char_def)
  with d show False by simp
qed

lemma str_nat_nonempty: "str_nat n \<noteq> []"
  by (subst str_nat.simps) simp

lemma str_nat_no_colon: "CHR '':'' \<notin> set (str_nat n)"
proof (induction n rule: str_nat.induct)
  case (1 n)
  show ?case
  proof (cases "n < 10")
    case True
    then show ?thesis using digit_char_not_colon[of n]
      by (subst str_nat.simps) auto
  next
    case False
    have "n mod 10 < 10" by simp
    then have "digit_char (n mod 10) \<noteq> CHR '':''" by (rule digit_char_not_colon)
    with False 1 show ?thesis
      by (subst str_nat.simps) auto
  qed
qed

lemma str_nat_hd_not_minus: "hd (str_nat n) \<noteq> CHR ''-''"
proof (induction n rule: str_nat.induct)
  case (1 n)
  show ?case
  proof (cases "n < 10")
    case True
    then show ?thesis using digit_char_not_minus[of n]
      by (subst str_nat.simps) auto
  next
    case False
    with 1 show ?thesis
      by (subst str_nat.simps) (simp add: str_nat_nonempty)
  qed
qed

lemma str_nat_inj: "str_nat n = str_nat m \<Longrightarrow> n = m"
proof (induction n arbitrary: m rule: str_nat.induct)
  case (1 n)
  note eq = \<open>str_nat n = str_nat m\<close>
  show ?case
  proof (cases "n < 10")
    case n: True
    show ?thesis
    proof (cases "m < 10")
      case True
      from eq n True have "digit_char n = digit_char m"
        by (simp add: str_nat.simps[of n] str_nat.simps[of m])
      with n True show ?thesis by (rule digit_char_inj)
    next
      case False
      from eq n False have "[digit_char n] = str_nat (m div 10) @ [digit_char (m mod 10)]"
        by (simp add: str_nat.simps[of n] str_nat.simps[of m])
      then have "str_nat (m div 10) = []" by simp
      then show ?thesis by (simp add: str_nat_nonempty)
    qed
  next
    case n: False
    show ?thesis
    proof (cases "m < 10")
      case True
      from eq n True have "str_nat (n div 10) @ [digit_char (n mod 10)] = [digit_char m]"
        by (simp add: str_nat.simps[of n] str_nat.simps[of m])
      then have "str_nat (n div 10) = []" by simp
      then show ?thesis by (simp add: str_nat_nonempty)
    next
      case False
      from eq n False
      have "str_nat (n div 10) @ [digit_char (n mod 10)] =
            str_nat (m div 10) @ [digit_char (m mod 10)]"
        by (simp add: str_nat.simps[of n] str_nat.simps[of m])
      then have q: "str_nat (n div 10) = str_nat (m div 10)"
        and r: "digit_char (n mod 10) = digit_char (m mod 10)" by simp_all
      from 1(1)[OF n q] have d: "n div 10 = m div 10" .
      have "n mod 10 = m mod 10" by (rule digit_char_inj[OF _ _ r]) simp_all
      with d show ?thesis by (metis div_mult_mod_eq)
    qed
  qed
qed

lemma str_int_inj: "str_int i = str_int j \<Longrightarrow> i = j"
proof -
  assume eq: "str_int i = str_int j"
  have neg: "\<And>a b. a < 0 \<Longrightarrow> \<not> b < 0 \<Longrightarrow> str_int a \<noteq> str_int b"
  proof
    fix a b :: int assume "a < 0" "\<not> b < 0" "str_int a = str_int b"
    then have "CHR ''-'' # str_nat (nat (- a)) = str_nat (nat b)" by (simp add: str_int_def)
    then have "hd (str_nat (nat b)) = CHR ''-''" by (metis list.sel(1))
    then show False by (simp add: str_nat_hd_not_minus)
  qed
  show "i = j"
  proof (cases "i < 0")
    case i: True
    show ?thesis
    proof (cases "j < 0")
      case True
      with i eq have "str_nat (nat (- i)) = str_nat (nat (- j))" by (simp add: str_int_def)
      then have "nat (- i) = nat (- j)" by (rule str_nat_inj)
      with i True show ?thesis by simp
    next
      case False
      with i eq neg show ?thesis by blast
    qed
  next
    case i: False
    show ?thesis
    proof (cases "j < 0")
      case True
      with i eq neg[of j i] show ?thesis by simp
    next
      case False
      with i eq have "str_nat (nat i) = str_nat (nat j)" by (simp add: str_int_def)
      then have "nat i = nat j" by (rule str_nat_inj)
      with i False show ?thesis by simp
    qed
  qed
qed

lemma str_int_no_colon: "CHR '':'' \<notin> set (str_int i)"
  by (simp add: str_int_def str_nat_no_colon)

lemma takeWhile_to_colon:
  "CHR '':'' \<notin> set s \<Longrightarrow> takeWhile (\<lambda>c. c \<noteq> CHR '':'') (s @ CHR '':'' # z) = s"
  by (induction s) auto

lemma colon_split_unique:
  assumes "CHR '':'' \<notin> set a" "CHR '':'' \<notin> set b" "a @ CHR '':'' # x = b @ CHR '':'' # y"
  shows "a = b"
proof -
  from assms(3) have "takeWhile (\<lambda>c. c \<noteq> CHR '':'') (a @ CHR '':'' # x) =
      takeWhile (\<lambda>c. c \<noteq> CHR '':'') (b @ CHR '':'' # y)" by simp
  with takeWhile_to_colon[OF assms(1)] takeWhile_to_colon[OF assms(2)] show ?thesis by simp
qed

subsection \<open>Token issuance\<close>

lemma snd_create_access_token:
  "snd (create_access_token env w room ident) = w\<lparr>ticks := Suc (ticks w)\<rparr>"
  by (simp add: create_access_token_def time_time_def Let_def)

lemma fst_create_access_token:
  "fst (create_access_token env w room ident) =
     token_data env room ident (py_int (clock env (ticks w)) + 3600) @ '':'' @
     hmac_sha256_hex env (livekit_api_secret (settings env))
       (token_data env room ident (py_int (clock env (ticks w)) + 3600))"
  by (simp add: create_access_token_def time_time_def Let_def)

lemma token_data_differ:
  "e1 \<noteq> e2 \<Longrightarrow> token_data env room ident e1 \<noteq> token_data env room ident e2"
  by (auto simp: token_data_def dest: str_int_inj)

lemma tokens_differ:
  assumes "e1 \<noteq> e2"
  shows "token_data env room ident e1 @ '':'' @ h1 \<noteq> token_data env room ident e2 @ '':'' @ h2"
proof
  assume "token_data env room ident e1 @ '':'' @ h1 = token_data env room ident e2 @ '':'' @ h2"
  then have "str_int e1 @ CHR '':'' # h1 = str_int e2 @ CHR '':'' # h2"
    by (simp add: token_data_def)
  then have "str_int e1 = str_int e2"
    by (rule colon_split_unique[OF str_int_no_colon str_int_no_colon])
  with assms show False by (simp add: str_int_inj)
qed

subsection \<open>Starting and ending a session\<close>

lemma response_text_nonempty: "response_text r = Some g \<Longrightarrow> g \<noteq> []"
  by (auto simp: response_text_def split: option.splits response.splits if_splits)

lemma default_greeting_nonempty: "default_greeting \<noteq> []"
  by (simp add: default_greeting_def)

lemma start_session_raises:
  assumes "genai_model c = Some m"
    "model_generate_content env (ai_calls w) GreetingPrompt = AiRaises msg"
  shows "start_session env c w sid uid cfg =
     (Inl (UpstreamError msg),
      c\<lparr>session := Some (started_session sid uid cfg (clock env (Suc (ticks w))) []),
        is_connected := True\<rparr>,
      w\<lparr>ticks := Suc (Suc (ticks w)), ai_calls := Suc (ai_calls w)\<rparr>)"
  using assms
  by (simp add: start_session_def time_time_def connector_generate_content_def
      started_session_def)

lemma start_session_returns:
  assumes "genai_model c = Some m"
    "model_generate_content env (ai_calls w) GreetingPrompt = AiReturns r"
  shows "start_session env c w sid uid cfg =
     (Inr \<lparr>sr_status = ''success'', sr_session_id = sid,
           sr_message = ''Session started successfully'',
           sr_greeting = (case response_text r of None \<Rightarrow> default_greeting | Some g \<Rightarrow> g)\<rparr>,
      c\<lparr>session := Some (started_session sid uid cfg (clock env (Suc (ticks w)))
             (case response_text r of None \<Rightarrow> []
              | Some g \<Rightarrow> [AssistantGreeting g (clock env (Suc (Suc (ticks w)))) sid])),
        is_connected := True\<rparr>,
      w\<lparr>ticks := (case response_text r of None \<Rightarrow> ticks w + 2 | Some g \<Rightarrow> ticks w + 3),
        ai_calls := Suc (ai_calls w)\<rparr>)"
proof (cases "response_text r")
  case None
  then show ?thesis using assms
    by (simp add: start_session_def time_time_def connector_generate_content_def
      started_session_def)
next
  case (Some g)
  then have "g \<noteq> []" by (rule response_text_nonempty)
  with Some show ?thesis using assms
    by (simp add: start_session_def time_time_def connector_generate_content_def
      started_session_def append_history_def)
qed

lemma handle_start_session_raises:
  assumes "validate_StartSessionMessage env dat = Inr sm" "ssm_session_id sm = Some sid"
    "sid \<noteq> []" "model_init_error env = None"
    "model_generate_content env (ai_calls w) GreetingPrompt = AiRaises msg"
  shows "handle_start_session env w dat =
     (Inr (), w\<lparr>ticks := ticks w + 3, ai_calls := Suc (ai_calls w),
        sent := sent w @
          [error_frame ''SESSION_START_ERROR'' (''Failed to start session: '' @ msg)]\<rparr>)"
  using assms
  by (simp add: handle_start_session_def handle_start_session_try_def split_beta Let_def
      initialize_def new_connector_def snd_create_access_token start_session_raises
      send_error_frame chosen_session_id_def)

lemma handle_start_session_returns:
  assumes "validate_StartSessionMessage env dat = Inr sm" "ssm_session_id sm = Some sid"
    "sid \<noteq> []" "model_init_error env = None"
    "model_generate_content env (ai_calls w) GreetingPrompt = AiReturns r"
  shows "handle_start_session env w dat =
     (let room = livekit_room_prefix (settings env) @ ''-'' @ sid;
          token = fst (create_access_token env w room (ssm_user_id sm));
          k = (case response_text r of None \<Rightarrow> ticks w + 3 | Some g \<Rightarrow> ticks w + 4)
      in (Inr (), w\<lparr>ticks := Suc k, ai_calls := Suc (ai_calls w),
        session_connectors := (session_connectors w)(sid \<mapsto>
           \<lparr>model_name = gemini_model (settings env),
            genai_model = Some (gemini_model (settings env)),
            session = Some (started_session sid (ssm_user_id sm) (ssm_config sm)
               (clock env (ticks w + 2))
               (case response_text r of None \<Rightarrow> []
                | Some g \<Rightarrow> [AssistantGreeting g (clock env (ticks w + 3)) sid])),
            is_connected = True\<rparr>),
        room_sessions := (room_sessions w)(sid \<mapsto>
           \<lparr>r_room_name = room, r_user_id = ssm_user_id sm, r_access_token = token,
            r_start_time = clock env k, r_status = ''active''\<rparr>),
        sent := sent w @ [session_started_frame env sid room token]\<rparr>))"
  using assms
  by (cases "response_text r")
     (simp_all add: handle_start_session_def handle_start_session_try_def split_beta Let_def
      initialize_def new_connector_def snd_create_access_token start_session_returns
      send_session_started time_time_def eval_nat_numeral chosen_session_id_def)

lemma handle_end_session_unregistered:
  assumes "session_connectors w sid = None"
    and "validate_EndSessionMessage env dat = Inr em" and "esm_session_id em = sid"
  shows "handle_end_session env w dat =
           (Inr (), w\<lparr>sent := sent w @ [session_not_found sid]\<rparr>)"
  using assms
  by (simp add: handle_end_session_def handle_end_session_try_def send_session_not_found)

lemma end_session_active:
  assumes "session c = Some s" "s_id s = sid"
  shows "end_session env c w sid =
     (Inr (clock env (ticks w) - s_start_time s),
      c\<lparr>session := Some (s\<lparr>s_status := ''ended'', s_end_time := Some (clock env (ticks w))\<rparr>),
        is_connected := False\<rparr>,
      w\<lparr>ticks := Suc (ticks w)\<rparr>)"
  using assms by (simp add: end_session_def time_time_def)

lemma handle_end_session_registered:
  assumes "validate_EndSessionMessage env dat = Inr em" "esm_session_id em = sid"
    and "session_connectors w sid = Some c" "session c = Some s" "s_id s = sid"
  shows "handle_end_session env w dat =
     (Inr (), w\<lparr>ticks := Suc (ticks w),
        active_connections := (active_connections w)(sid := None),
        session_connectors := (session_connectors w)(sid := None),
        room_sessions := (room_sessions w)(sid := None),
        sent := sent w @ [session_ended_frame sid (clock env (ticks w) - s_start_time s)]\<rparr>)"
  using assms
  by (simp add: handle_end_session_def handle_end_session_try_def end_session_active
      disconnect_def send_session_ended)


subsection \<open>No handler lets an exception out\<close>

lemma handle_start_session_returns_normally:
  "fst (handle_start_session env w dat) = Inr ()"
  by (simp add: handle_start_session_def send_error_frame split: prod.splits sum.splits)

lemma handle_audio_input_returns_normally:
  "fst (handle_audio_input env w dat) = Inr ()"
  by (simp add: handle_audio_input_def send_error_frame split: prod.splits sum.splits)

lemma handle_screen_share_frame_returns_normally:
  "fst (handle_screen_share_frame env w dat) = Inr ()"
  by (simp add: handle_screen_share_frame_def send_error_frame split: prod.splits sum.splits)

lemma handle_end_session_returns_normally:
  "fst (handle_end_session env w dat) = Inr ()"
  by (simp add: handle_end_session_def send_error_frame split: prod.splits sum.splits)

lemma pass_normal_return:
  "fst p = Inr () \<Longrightarrow>
     (case p of (Inr u, w1) \<Rightarrow> (Inr u, w1)
      | (Inl (JSONDecodeError m), w1) \<Rightarrow> f w1
      | (Inl e, w1) \<Rightarrow> g w1) = p"
  by (cases p) auto

lemma process_message_start:
  "dict_get dat ''action'' = Some (PStr ''start_session'') \<Longrightarrow>
     process_message env w (Parsed (PDict dat)) = handle_start_session env w dat"
  by (simp add: process_message_def process_message_try_def pass_normal_return
      handle_start_session_returns_normally)

lemma process_message_audio:
  "dict_get dat ''action'' = Some (PStr ''audio_input'') \<Longrightarrow>
     process_message env w (Parsed (PDict dat)) = handle_audio_input env w dat"
  by (simp add: process_message_def process_message_try_def pass_normal_return
      handle_audio_input_returns_normally)

lemma process_message_screen:
  "dict_get dat ''action'' = Some (PStr ''screen_share_frame'') \<Longrightarrow>
     process_message env w (Parsed (PDict dat)) = handle_screen_share_frame env w dat"
  by (simp add: process_message_def process_message_try_def pass_normal_return
      handle_screen_share_frame_returns_normally)

lemma process_message_end:
  "dict_get dat ''action'' = Some (PStr ''end_session'') \<Longrightarrow>
     process_message env w (Parsed (PDict dat)) = handle_end_session env w dat"
  by (simp add: process_message_def process_message_try_def pass_normal_return
      handle_end_session_returns_normally)

lemma process_message_unknown:
  assumes "action = (case dict_get dat ''action'' of None \<Rightarrow> PNone | Some a \<Rightarrow> a)"
    and "action \<notin> {PStr ''start_session'', PStr ''audio_input'', PStr ''screen_share_frame'',
                  PStr ''end_session''}"
  shows "process_message env w (Parsed (PDict dat)) =
     (Inr (), w\<lparr>sent := sent w @
        [error_frame ''INVALID_ACTION'' (''Unknown action: '' @ py_str env action)]\<rparr>)"
  using assms
  by (simp add: process_message_def process_message_try_def send_error_frame)

lemma process_message_malformed:
  "process_message env w (LoadsRaises (JSONDecodeError m)) =
     (Inr (), w\<lparr>sent := sent w @ [error_frame ''INVALID_JSON'' ''Invalid JSON format'']\<rparr>)"
  by (simp add: process_message_def process_message_try_def send_error_frame)

lemma process_message_loads_raises:
  "(case e of JSONDecodeError m \<Rightarrow> False | _ \<Rightarrow> True) \<Longrightarrow>
     process_message env w (LoadsRaises e) =
       (Inr (), w\<lparr>sent := sent w @
          [error_frame ''INTERNAL_ERROR'' ''Internal server error'']\<rparr>)"
  by (cases e) (simp_all add: process_message_def process_message_try_def send_error_frame)

lemma process_message_loads_raises_sent:
  "process_message env w (LoadsRaises e) =
     (Inr (), w\<lparr>sent := sent w @
        [case e of
           JSONDecodeError m \<Rightarrow> error_frame ''INVALID_JSON'' ''Invalid JSON format''
         | _ \<Rightarrow> error_frame ''INTERNAL_ERROR'' ''Internal server error'']\<rparr>)"
  by (cases e) (simp_all add: process_message_def process_message_try_def send_error_frame)

lemma process_message_not_object:
  "(case v of PDict d \<Rightarrow> False | _ \<Rightarrow> True) \<Longrightarrow>
     process_message env w (Parsed v) =
       (Inr (), w\<lparr>sent := sent w @
          [error_frame ''INTERNAL_ERROR'' ''Internal server error'']\<rparr>)"
  by (cases v) (simp_all add: process_message_def process_message_try_def send_error_frame)

lemma process_message_returns_normally:
  "fst (process_message env w message) = Inr ()"
proof (cases message)
  case (LoadsRaises e)
  then show ?thesis by (simp add: process_message_loads_raises_sent)
next
  case (Parsed v)
  show ?thesis
  proof (cases "case v of PDict d \<Rightarrow> False | _ \<Rightarrow> True")
    case True
    with Parsed show ?thesis by (simp add: process_message_not_object)
  next
    case False
    then obtain dat where v: "v = PDict dat" by (cases v) auto
    let ?a = "case dict_get dat ''action'' of None \<Rightarrow> PNone | Some a \<Rightarrow> a"
    consider "?a = PStr ''start_session''" | "?a = PStr ''audio_input''"
      | "?a = PStr ''screen_share_frame''" | "?a = PStr ''end_session''"
      | "?a \<notin> {PStr ''start_session'', PStr ''audio_input'', PStr ''screen_share_frame'',
                PStr ''end_session''}"
      by blast
    then show ?thesis
    proof cases
      case 1
      then have "dict_get dat ''action'' = Some (PStr ''start_session'')"
        by (auto split: option.splits)
      with Parsed v show ?thesis
        by (simp add: process_message_start handle_start_session_returns_normally)
    next
      case 2
      then have "dict_get dat ''action'' = Some (PStr ''audio_input'')"
        by (auto split: option.splits)
      with Parsed v show ?thesis
        by (simp add: process_message_audio handle_audio_input_returns_normally)
    next
      case 3
      then have "dict_get dat ''action'' = Some (PStr ''screen_share_frame'')"
        by (auto split: option.splits)
      with Parsed v show ?thesis
        by (simp add: process_message_screen handle_screen_share_frame_returns_normally)
    next
      case 4
      then have "dict_get dat ''action'' = Some (PStr ''end_session'')"
        by (auto split: option.splits)
      with Parsed v show ?thesis
        by (simp add: process_message_end handle_end_session_returns_normally)
    next
      case 5
      with Parsed v show ?thesis
        by (simp add: process_message_unknown[OF refl])
    qed
  qed
qed

lemma livekit_endpoint_step:
  "livekit_endpoint env w (message # rest) =
     livekit_endpoint env (snd (process_message env w message)) rest"
  using process_message_returns_normally[of env w message]
  by (cases "process_message env w message") simp

lemma livekit_endpoint_fold:
  "livekit_endpoint env w frames =
     (None, foldl (\<lambda>w' m. snd (process_message env w' m)) w frames)"
  by (induction frames arbitrary: w) (simp_all add: livekit_endpoint_step del: livekit_endpoint.simps(2))

subsection \<open>One audio submission to an active session\<close>

lemma active_append_history:
  "active_connector c sid \<Longrightarrow> active_connector (append_history c h) sid"
  by (auto simp: active_connector_def is_session_active_def append_history_def
      split: option.splits)

lemma handle_audio_input_active:
  assumes "validate_AudioInputMessage env dat = Inr am" "aim_session_id am = sid"
    and "registered_active w sid"
  shows "fst (handle_audio_input env w dat) = Inr () \<and>
         sent (snd (handle_audio_input env w dat)) =
           sent w @ fst (audio_reply env (ai_calls w) (aim_data am)) \<and>
         ai_calls (snd (handle_audio_input env w dat)) =
           snd (audio_reply env (ai_calls w) (aim_data am)) \<and>
         registered_active (snd (handle_audio_input env w dat)) sid"
proof -
  from assms(3) obtain c where c: "session_connectors w sid = Some c"
    and a: "active_connector c sid"
    by (auto simp: registered_active_def split: option.splits)
  show ?thesis
  proof (cases "b64decode_error env (aim_data am)")
    case (Some m)
    with c a show ?thesis
      by (simp add: handle_audio_input_undecodable[OF assms(1,2) c a Some] audio_reply_def
          registered_active_def)
  next
    case None
    show ?thesis
    proof (cases "model_generate_content env (ai_calls w) (AudioPrompt (aim_data am))")
      case (AiRaises msg)
      with c a None show ?thesis
        by (simp add: handle_audio_input_raises[OF assms(1,2) c a None AiRaises]
            audio_reply_def registered_active_def)
    next
      case (AiReturns r)
      show ?thesis
      proof (cases "response_text r")
        case rt: None
        with c a None AiReturns show ?thesis
          by (simp add: handle_audio_input_silent[OF assms(1,2) c a None AiReturns rt]
              audio_reply_def registered_active_def)
      next
        case (Some t)
        with c a None AiReturns show ?thesis
          by (simp add: handle_audio_input_text[OF assms(1,2) c a None AiReturns Some]
              audio_reply_def registered_active_def active_append_history)
      qed
    qed
  qed
qed


subsection \<open>An invariant of every reachable world\<close>

text \<open>
  Whatever frames the loop has handled, every connector in the manager's dict is active
  for the identifier it is stored under, and the start time of its session is an earlier
  reading of the clock.
\<close>

lemma session_ok_mono: "session_ok env n sid c \<Longrightarrow> n \<le> m \<Longrightarrow> session_ok env m sid c"
  unfolding session_ok_def by (meson less_le_trans)

lemma session_ok_append_history:
  "session_ok env n sid c \<Longrightarrow> session_ok env n sid (append_history c h)"
  by (auto simp: session_ok_def active_connector_def is_session_active_def append_history_def)

lemma world_ok_initial: "world_ok env initial_world"
  by (simp add: world_ok_def initial_world_def)

lemma world_okD: "world_ok env w \<Longrightarrow> session_connectors w sid = Some c \<Longrightarrow> session_ok env (ticks w) sid c"
  by (simp add: world_ok_def)

lemma world_ok_same:
  assumes "world_ok env w" "session_connectors w' = session_connectors w" "ticks w \<le> ticks w'"
  shows "world_ok env w'"
  using assms unfolding world_ok_def by (auto intro: session_ok_mono)

lemma world_ok_upd:
  assumes "world_ok env w" "session_connectors w' = (session_connectors w)(sid \<mapsto> c)"
    "ticks w \<le> ticks w'" "session_ok env (ticks w') sid c"
  shows "world_ok env w'"
  using assms unfolding world_ok_def by (auto intro: session_ok_mono)

lemma world_ok_del:
  assumes "world_ok env w" "session_connectors w' = (session_connectors w)(sid := None)"
    "ticks w \<le> ticks w'"
  shows "world_ok env w'"
  using assms unfolding world_ok_def by (auto intro: session_ok_mono)

lemma chosen_session_id_cases:
  "\<exists>sid u. chosen_session_id env w sm = (sid, w\<lparr>uuids := u\<rparr>)"
proof -
  have keep: "w = w\<lparr>uuids := uuids w\<rparr>" by simp
  have fresh: "\<exists>sid u. (uuid4 env (uuids w), w\<lparr>uuids := Suc (uuids w)\<rparr>) = (sid, w\<lparr>uuids := u\<rparr>)"
    by blast
  show ?thesis
  proof (cases "ssm_session_id sm")
    case None
    with fresh show ?thesis by (simp add: chosen_session_id_def)
  next
    case (Some s)
    show ?thesis
    proof (cases "s = []")
      case True
      with Some fresh show ?thesis by (simp add: chosen_session_id_def)
    next
      case False
      with Some have "chosen_session_id env w sm = (s, w)" by (simp add: chosen_session_id_def)
      with keep show ?thesis by metis
    qed
  qed
qed

lemma fst_create_access_token_uuids:
  "fst (create_access_token env (w\<lparr>uuids := u\<rparr>) room ident) =
   fst (create_access_token env w room ident)"
  by (simp add: fst_create_access_token)

lemma start_session_unfold:
  "genai_model c \<noteq> None \<Longrightarrow>
   start_session env c w sid uid cfg =
     (case model_generate_content env (ai_calls w) GreetingPrompt of
        AiRaises msg \<Rightarrow>
          (Inl (UpstreamError msg),
           c\<lparr>session := Some (started_session sid uid cfg (clock env (Suc (ticks w))) []),
             is_connected := True\<rparr>,
           w\<lparr>ticks := Suc (Suc (ticks w)), ai_calls := Suc (ai_calls w)\<rparr>)
      | AiReturns r \<Rightarrow>
          (Inr \<lparr>sr_status = ''success'', sr_session_id = sid,
                sr_message = ''Session started successfully'',
                sr_greeting = (case response_text r of None \<Rightarrow> default_greeting | Some g \<Rightarrow> g)\<rparr>,
           c\<lparr>session := Some (started_session sid uid cfg (clock env (Suc (ticks w)))
                  (case response_text r of None \<Rightarrow> []
                   | Some g \<Rightarrow> [AssistantGreeting g (clock env (Suc (Suc (ticks w)))) sid])),
             is_connected := True\<rparr>,
           w\<lparr>ticks := (case response_text r of None \<Rightarrow> ticks w + 2 | Some g \<Rightarrow> ticks w + 3),
             ai_calls := Suc (ai_calls w)\<rparr>))"
  by (cases "model_generate_content env (ai_calls w) GreetingPrompt")
     (auto simp: start_session_raises start_session_returns)


lemma handle_start_session_raises_gen:
  assumes "validate_StartSessionMessage env dat = Inr sm"
    "chosen_session_id env w sm = (sid, w\<lparr>uuids := u\<rparr>)" "model_init_error env = None"
    "model_generate_content env (ai_calls w) GreetingPrompt = AiRaises msg"
  shows "handle_start_session env w dat =
     (Inr (), w\<lparr>ticks := ticks w + 3, ai_calls := Suc (ai_calls w), uuids := u,
        sent := sent w @
          [error_frame ''SESSION_START_ERROR'' (''Failed to start session: '' @ msg)]\<rparr>)"
  using assms
  by (simp add: handle_start_session_def handle_start_session_try_def split_beta Let_def
      initialize_def new_connector_def snd_create_access_token start_session_unfold
      send_error_frame)

lemma handle_start_session_returns_gen:
  assumes "validate_StartSessionMessage env dat = Inr sm"
    "chosen_session_id env w sm = (sid, w\<lparr>uuids := u\<rparr>)" "model_init_error env = None"
    "model_generate_content env (ai_calls w) GreetingPrompt = AiReturns r"
  shows "handle_start_session env w dat =
     (let room = livekit_room_prefix (settings env) @ ''-'' @ sid;
          token = fst (create_access_token env w room (ssm_user_id sm));
          k = (case response_text r of None \<Rightarrow> ticks w + 3 | Some g \<Rightarrow> ticks w + 4)
      in (Inr (), w\<lparr>ticks := Suc k, ai_calls := Suc (ai_calls w), uuids := u,
        session_connectors := (session_connectors w)(sid \<mapsto>
           \<lparr>model_name = gemini_model (settings env),
            genai_model = Some (gemini_model (settings env)),
            session = Some (started_session sid (ssm_user_id sm) (ssm_config sm)
               (clock env (ticks w + 2))
               (case response_text r of None \<Rightarrow> []
                | Some g \<Rightarrow> [AssistantGreeting g (clock env (ticks w + 3)) sid])),
            is_connected = True\<rparr>),
        room_sessions := (room_sessions w)(sid \<mapsto>
           \<lparr>r_room_name = room, r_user_id = ssm_user_id sm, r_access_token = token,
            r_start_time = clock env k, r_status = ''active''\<rparr>),
        sent := sent w @ [session_started_frame env sid room token]\<rparr>))"
  using assms
  by (cases "response_text r")
     (simp_all add: handle_start_session_def handle_start_session_try_def split_beta Let_def
      initialize_def new_connector_def snd_create_access_token start_session_unfold
      send_session_started time_time_def eval_nat_numeral fst_create_access_token_uuids)

lemma world_ok_start:
  assumes ok: "world_ok env w"
  shows "world_ok env (snd (handle_start_session env w dat))"
proof (cases "validate_StartSessionMessage env dat")
  case (Inl e)
  then have "handle_start_session env w dat =
      (Inr (), w\<lparr>sent := sent w @ [error_frame ''SESSION_START_ERROR''
         (''Failed to start session: '' @ exn_str e)]\<rparr>)"
    by (simp add: handle_start_session_def handle_start_session_try_def send_error_frame)
  with ok show ?thesis by (auto intro: world_ok_same)
next
  case (Inr sm)
  obtain sid u where ch: "chosen_session_id env w sm = (sid, w\<lparr>uuids := u\<rparr>)"
    using chosen_session_id_cases by blast
  show ?thesis
  proof (cases "model_init_error env")
    case (Some m)
    with Inr have "session_connectors (snd (handle_start_session env w dat)) = session_connectors w
        \<and> ticks w \<le> ticks (snd (handle_start_session env w dat))"
      by (simp add: handle_start_session_def handle_start_session_try_def split_beta Let_def
          initialize_def snd_create_access_token send_error_frame ch)
    with ok show ?thesis by (auto intro: world_ok_same)
  next
    case None
    show ?thesis
    proof (cases "model_generate_content env (ai_calls w) GreetingPrompt")
      case (AiRaises msg)
      have "session_connectors (snd (handle_start_session env w dat)) =
          session_connectors w \<and> ticks w \<le> ticks (snd (handle_start_session env w dat))"
        by (simp add: handle_start_session_raises_gen[OF Inr ch None AiRaises])
      with ok show ?thesis by (auto intro: world_ok_same)
    next
      case (AiReturns r)
      let ?c = "\<lparr>model_name = gemini_model (settings env),
            genai_model = Some (gemini_model (settings env)),
            session = Some (started_session sid (ssm_user_id sm) (ssm_config sm)
               (clock env (ticks w + 2))
               (case response_text r of None \<Rightarrow> []
                | Some g \<Rightarrow> [AssistantGreeting g (clock env (ticks w + 3)) sid])),
            is_connected = True\<rparr>"
      let ?w' = "snd (handle_start_session env w dat)"
      note H = handle_start_session_returns_gen[OF Inr ch None AiReturns]
      have 1: "session_connectors ?w' = (session_connectors w)(sid \<mapsto> ?c)"
        by (simp add: H Let_def)
      have 2: "ticks w + 3 \<le> ticks ?w'"
        by (simp add: H Let_def split: option.splits)
      have "ticks w + 2 < ticks ?w'" using 2 by simp
      then have 3: "session_ok env (ticks ?w') sid ?c"
        unfolding session_ok_def active_connector_def is_session_active_def started_session_def
        by auto
      from 2 have "ticks w \<le> ticks ?w'" by simp
      from world_ok_upd[OF ok 1 this 3] show ?thesis .
    qed
  qed
qed


lemma process_screen_share_text:
  assumes "active_connector c sid"
    "model_generate_content env (ai_calls w) (ScreenPrompt d) = AiReturns r"
    "response_text r = Some t"
  shows "process_screen_share env c w d sid =
           ([YieldText t sid],
            append_history (append_history c (ScreenShare (clock env (ticks w)) sid))
              (AssistantText t (clock env (Suc (ticks w))) sid),
            w\<lparr>ai_calls := Suc (ai_calls w), ticks := Suc (Suc (ticks w))\<rparr>)"
  using assms active_connectorD[OF assms(1)]
  by (auto simp: process_screen_share_def connector_generate_content_def time_time_def)

lemma consume_screen_text:
  "consume_screen env w sid (YieldText t sid' # ps) =
     (Inl (TypeError ''Object of type datetime is not JSON serializable''),
      w\<lparr>ticks := Suc (Suc (ticks w))\<rparr>)"
  by (simp add: resume_def time_time_def screen_response_body_def send_text_response_raises)

lemma handle_screen_share_frame_raises:
  assumes "validate_ScreenShareFrameMessage env dat = Inr sm" "sfm_session_id sm = sid"
    and "session_connectors w sid = Some c" "active_connector c sid"
    and "model_generate_content env (ai_calls w) (ScreenPrompt (sfm_data sm)) = AiRaises msg"
  shows "handle_screen_share_frame env w dat =
           (Inr (), w\<lparr>ai_calls := Suc (ai_calls w), ticks := Suc (ticks w),
                       sent := sent w @ [screen_share_error]\<rparr>)"
  using assms
  by (simp add: handle_screen_share_frame_registered process_screen_share_raises
      consume_screen_error map_upd_triv del: consume_screen.simps)

lemma handle_screen_share_frame_text:
  assumes "validate_ScreenShareFrameMessage env dat = Inr sm" "sfm_session_id sm = sid"
    and "session_connectors w sid = Some c" "active_connector c sid"
    and "model_generate_content env (ai_calls w) (ScreenPrompt (sfm_data sm)) = AiReturns r"
    and "response_text r = Some t"
  shows "handle_screen_share_frame env w dat =
           (Inr (), w\<lparr>ai_calls := Suc (ai_calls w), ticks := ticks w + 4,
               session_connectors := (session_connectors w)(sid \<mapsto>
                  append_history (append_history c (ScreenShare (clock env (ticks w)) sid))
                     (AssistantText t (clock env (Suc (ticks w))) sid)),
               sent := sent w @ [critical_screen_error]\<rparr>)"
  using assms
  by (simp add: handle_screen_share_frame_registered process_screen_share_text
      consume_screen_text del: consume_screen.simps)

lemma world_ok_audio:
  assumes ok: "world_ok env w"
  shows "world_ok env (snd (handle_audio_input env w dat))"
proof (cases "validate_AudioInputMessage env dat")
  case (Inl e)
  then have "handle_audio_input env w dat =
      (Inr (), w\<lparr>sent := sent w @ [error_frame ''AUDIO_PROCESSING_ERROR''
         (''Failed to process audio: '' @ exn_str e)]\<rparr>)"
    by (simp add: handle_audio_input_def handle_audio_input_try_def send_error_frame)
  with ok show ?thesis by (auto intro: world_ok_same)
next
  case (Inr am)
  let ?sid = "aim_session_id am"
  show ?thesis
  proof (cases "session_connectors w ?sid")
    case None
    from ok show ?thesis
      by (auto simp: handle_audio_input_unregistered[OF None Inr refl] intro: world_ok_same)
  next
    case (Some c)
    from world_okD[OF ok Some] have sok: "session_ok env (ticks w) ?sid c" .
    then have a: "active_connector c ?sid" by (simp add: session_ok_def)
    show ?thesis
    proof (cases "b64decode_error env (aim_data am)")
      case bad: (Some m)
      from ok show ?thesis
        by (auto simp: handle_audio_input_undecodable[OF Inr refl Some a bad]
            intro: world_ok_same)
    next
      case None
      show ?thesis
      proof (cases "model_generate_content env (ai_calls w) (AudioPrompt (aim_data am))")
        case (AiRaises msg)
        from ok show ?thesis
          by (auto simp: handle_audio_input_raises[OF Inr refl Some a None AiRaises]
              intro: world_ok_same)
      next
        case (AiReturns r)
        show ?thesis
        proof (cases "response_text r")
          case rt: None
          from ok show ?thesis
            by (auto simp: handle_audio_input_silent[OF Inr refl Some a None AiReturns rt]
                intro: world_ok_same)
        next
          case (Some t)
          let ?c' = "append_history (append_history c (UserAudio (clock env (ticks w)) ?sid))
                     (AssistantText t (clock env (Suc (ticks w))) ?sid)"
          let ?w' = "snd (handle_audio_input env w dat)"
          note H = handle_audio_input_text[OF Inr refl \<open>session_connectors w ?sid = Some c\<close>
              a None AiReturns Some]
          have 1: "session_connectors ?w' = (session_connectors w)(?sid \<mapsto> ?c')"
            by (simp add: H)
          have 2: "ticks w \<le> ticks ?w'" by (simp add: H)
          from sok have "session_ok env (ticks w) ?sid ?c'"
            by (intro session_ok_append_history)
          then have 3: "session_ok env (ticks ?w') ?sid ?c'"
            using 2 by (rule session_ok_mono)
          from world_ok_upd[OF ok 1 2 3] show ?thesis .
        qed
      qed
    qed
  qed
qed

lemma world_ok_screen:
  assumes ok: "world_ok env w"
  shows "world_ok env (snd (handle_screen_share_frame env w dat))"
proof (cases "validate_ScreenShareFrameMessage env dat")
  case (Inl e)
  then have "handle_screen_share_frame env w dat =
      (Inr (), w\<lparr>sent := sent w @ [error_frame ''SCREEN_SHARE_ERROR''
         (''Failed to process screen share: '' @ exn_str e)]\<rparr>)"
    by (simp add: handle_screen_share_frame_def handle_screen_share_frame_try_def
        send_error_frame)
  with ok show ?thesis by (auto intro: world_ok_same)
next
  case (Inr sm)
  let ?sid = "sfm_session_id sm"
  show ?thesis
  proof (cases "session_connectors w ?sid")
    case None
    from ok show ?thesis
      by (auto simp: handle_screen_share_frame_unregistered[OF None Inr refl]
          intro: world_ok_same)
  next
    case (Some c)
    from world_okD[OF ok Some] have sok: "session_ok env (ticks w) ?sid c" .
    then have a: "active_connector c ?sid" by (simp add: session_ok_def)
    show ?thesis
    proof (cases "model_generate_content env (ai_calls w) (ScreenPrompt (sfm_data sm))")
      case (AiRaises msg)
      from ok show ?thesis
        by (auto simp: handle_screen_share_frame_raises[OF Inr refl Some a AiRaises]
            intro: world_ok_same)
    next
      case (AiReturns r)
      show ?thesis
      proof (cases "response_text r")
        case rt: None
        from ok show ?thesis
          by (auto simp: handle_screen_share_frame_silent[OF Inr refl Some a AiReturns rt]
              intro: world_ok_same)
      next
        case (Some t)
        let ?c' = "append_history (append_history c (ScreenShare (clock env (ticks w)) ?sid))
                   (AssistantText t (clock env (Suc (ticks w))) ?sid)"
        let ?w' = "snd (handle_screen_share_frame env w dat)"
        note H = handle_screen_share_frame_text[OF Inr refl
            \<open>session_connectors w ?sid = Some c\<close> a AiReturns Some]
        have 1: "session_connectors ?w' = (session_connectors w)(?sid \<mapsto> ?c')"
          by (simp add: H)
        have 2: "ticks w \<le> ticks ?w'" by (simp add: H)
        from sok have "session_ok env (ticks w) ?sid ?c'"
          by (intro session_ok_append_history)
        then have 3: "session_ok env (ticks ?w') ?sid ?c'"
          using 2 by (rule session_ok_mono)
        from world_ok_upd[OF ok 1 2 3] show ?thesis .
      qed
    qed
  qed
qed

lemma world_ok_end:
  assumes ok: "world_ok env w"
  shows "world_ok env (snd (handle_end_session env w dat))"
proof (cases "validate_EndSessionMessage env dat")
  case (Inl e)
  then have "handle_end_session env w dat =
      (Inr (), w\<lparr>sent := sent w @ [error_frame ''SESSION_END_ERROR''
         (''Failed to end session: '' @ exn_str e)]\<rparr>)"
    by (simp add: handle_end_session_def handle_end_session_try_def send_error_frame)
  with ok show ?thesis by (auto intro: world_ok_same)
next
  case (Inr em)
  let ?sid = "esm_session_id em"
  show ?thesis
  proof (cases "session_connectors w ?sid")
    case None
    from ok show ?thesis
      by (auto simp: handle_end_session_unregistered[OF None Inr refl] intro: world_ok_same)
  next
    case (Some c)
    from world_okD[OF ok Some] have "active_connector c ?sid" by (simp add: session_ok_def)
    then obtain s where s: "session c = Some s" "s_id s = ?sid"
      by (auto dest: active_connectorD)
    note H = handle_end_session_registered[OF Inr refl Some s]
    have 1: "session_connectors (snd (handle_end_session env w dat)) =
        (session_connectors w)(?sid := None)" by (simp add: H)
    have 2: "ticks w \<le> ticks (snd (handle_end_session env w dat))" by (simp add: H)
    from world_ok_del[OF ok 1 2] show ?thesis .
  qed
qed

lemma world_ok_process_message:
  assumes ok: "world_ok env w"
  shows "world_ok env (snd (process_message env w message))"
proof (cases message)
  case (LoadsRaises e)
  with ok show ?thesis
    by (auto simp: process_message_loads_raises_sent intro: world_ok_same)
next
  case (Parsed v)
  show ?thesis
  proof (cases "case v of PDict d \<Rightarrow> False | _ \<Rightarrow> True")
    case True
    with Parsed ok show ?thesis
      by (auto simp: process_message_not_object intro: world_ok_same)
  next
    case False
    then obtain dat where v: "v = PDict dat" by (cases v) auto
    let ?a = "case dict_get dat ''action'' of None \<Rightarrow> PNone | Some a \<Rightarrow> a"
    consider "?a = PStr ''start_session''" | "?a = PStr ''audio_input''"
      | "?a = PStr ''screen_share_frame''" | "?a = PStr ''end_session''"
      | "?a \<notin> {PStr ''start_session'', PStr ''audio_input'', PStr ''screen_share_frame'',
                PStr ''end_session''}"
      by blast
    then show ?thesis
    proof cases
      case 1
      then have "dict_get dat ''action'' = Some (PStr ''start_session'')"
        by (auto split: option.splits)
      with Parsed v ok show ?thesis
        by (simp add: process_message_start world_ok_start)
    next
      case 2
      then have "dict_get dat ''action'' = Some (PStr ''audio_input'')"
        by (auto split: option.splits)
      with Parsed v ok show ?thesis
        by (simp add: process_message_audio world_ok_audio)
    next
      case 3
      then have "dict_get dat ''action'' = Some (PStr ''screen_share_frame'')"
        by (auto split: option.splits)
      with Parsed v ok show ?thesis
        by (simp add: process_message_screen world_ok_screen)
    next
      case 4
      then have "dict_get dat ''action'' = Some (PStr ''end_session'')"
        by (auto split: option.splits)
      with Parsed v ok show ?thesis
        by (simp add: process_message_end world_ok_end)
    next
      case 5
      with Parsed v ok show ?thesis
        by (auto simp: process_message_unknown[OF refl] intro: world_ok_same)
    qed
  qed
qed

lemma world_ok_livekit_endpoint:
  "world_ok env w \<Longrightarrow> world_ok env (snd (livekit_endpoint env w frames))"
proof (induction frames arbitrary: w)
  case Nil
  then show ?case by simp
next
  case (Cons message rest)
  from Cons.prems have "world_ok env (snd (process_message env w message))"
    by (rule world_ok_process_message)
  then have "world_ok env (snd (livekit_endpoint env (snd (process_message env w message)) rest))"
    by (rule Cons.IH)
  then show ?case by (simp only: livekit_endpoint_step)
qed

lemma reachable_world_ok:
  "world_ok env (snd (livekit_endpoint env initial_world frames))"
  by (rule world_ok_livekit_endpoint[OF world_ok_initial])

lemma world_ok_duration:
  assumes "world_ok env w" "mono (clock env)" "session_connectors w sid = Some c"
    "session c = Some s"
  shows "0 \<le> clock env (ticks w) - s_start_time s"
proof -
  from world_okD[OF assms(1,3)] assms(4) obtain k where
    k: "k < ticks w" "s_start_time s = clock env k"
    by (auto simp: session_ok_def)
  from k(1) assms(2) have "clock env k \<le> clock env (ticks w)"
    by (simp add: monoD)
  with k(2) show ?thesis by simp
qed

subsection \<open>A list of audio submissions\<close>

text \<open>
  The frames of one connection are handled one after the other: for a list of audio
  submissions to a registered, active session the frames sent are the answers to the
  submissions in their order.
\<close>

lemma audio_replies_in_order:
  assumes "registered_active w sid"
    and "list_all2 (\<lambda>d am. dict_get d ''action'' = Some (PStr ''audio_input'') \<and>
                         validate_AudioInputMessage env d = Inr am \<and>
                         aim_session_id am = sid) ds ams"
  shows "fst (livekit_endpoint env w (map (\<lambda>d. Parsed (PDict d)) ds)) = None \<and>
         sent (snd (livekit_endpoint env w (map (\<lambda>d. Parsed (PDict d)) ds))) =
           sent w @ audio_replies env (ai_calls w) (map aim_data ams) \<and>
         registered_active (snd (livekit_endpoint env w (map (\<lambda>d. Parsed (PDict d)) ds))) sid"
  using assms(2,1)
proof (induction ds ams arbitrary: w rule: list_all2_induct)
  case Nil
  then show ?case by simp
next
  case (Cons d ds am ams)
  let ?w1 = "snd (handle_audio_input env w d)"
  from Cons.hyps(1) have act: "dict_get d ''action'' = Some (PStr ''audio_input'')"
    and val: "validate_AudioInputMessage env d = Inr am" and sid: "aim_session_id am = sid"
    by simp_all
  note step = handle_audio_input_active[OF val sid Cons.prems]
  from step have reg: "registered_active ?w1 sid" by simp
  note IH = Cons.IH[OF reg]
  have loop: "livekit_endpoint env w (map (\<lambda>d. Parsed (PDict d)) (d # ds)) =
      livekit_endpoint env ?w1 (map (\<lambda>d. Parsed (PDict d)) ds)"
    by (simp only: list.map livekit_endpoint_step process_message_audio[OF act])
  from IH step show ?case
    by (simp only: loop) simp
qed

section \<open>Properties\<close>



text \<open>
  C5. An audio submission to a registered, active session during which consuming the
  response stream raises: the generator of \<^verbatim>\<open>process_audio_input\<close> has been started and
  the loop over its events is left by an exception. Then the handler sends exactly one
  frame, the error with code \<^verbatim>\<open>CRITICAL_AUDIO_ERROR\<close>, nothing else was sent during the
  submission, and the session is still registered and active afterwards; the
  room-session records are untouched.
\<close>

theorem stream_failure_is_critical:
  assumes "validate_AudioInputMessage env dat = Inr am" "aim_session_id am = sid"
    and "session_connectors w sid = Some c" "active_connector c sid"
    and "process_audio_input env c w (aim_data am) sid = (pendings, c1, w1)"
    and "consume_audio env (w1\<lparr>session_connectors := (session_connectors w1)(sid \<mapsto> c1)\<rparr>)
           sid pendings = (Inl e, w3)"
  shows "handle_audio_input env w dat =
           (Inr (), w3\<lparr>sent := sent w3 @
              [PDict [(''action'', PStr ''error''), (''code'', PStr ''CRITICAL_AUDIO_ERROR''),
                      (''message'',
                       PStr ''Audio processing unavailable, please restart session'')]]\<rparr>) \<and>
         sent (snd (handle_audio_input env w dat)) =
           sent w @
             [PDict [(''action'', PStr ''error''), (''code'', PStr ''CRITICAL_AUDIO_ERROR''),
                     (''message'',
                      PStr ''Audio processing unavailable, please restart session'')]] \<and>
         registered_active (snd (handle_audio_input env w dat)) sid \<and>
         room_sessions (snd (handle_audio_input env w dat)) = room_sessions w"
proof -
  let ?d = "aim_data am"
  have first: "handle_audio_input env w dat =
      (Inr (), w3\<lparr>sent := sent w3 @
         [PDict [(''action'', PStr ''error''), (''code'', PStr ''CRITICAL_AUDIO_ERROR''),
                 (''message'',
                  PStr ''Audio processing unavailable, please restart session'')]]\<rparr>)"
    using assms(5,6)
    by (simp add: handle_audio_input_registered[OF assms(1,2,3)] critical_audio_error_def
        error_frame_def del: consume_audio.simps)
  have decodes: "b64decode_error env ?d = None"
  proof (cases "b64decode_error env ?d")
    case (Some m)
    from assms(5,6) show ?thesis
      by (auto simp: process_audio_input_undecodable[OF assms(4) Some] consume_audio_error
          simp del: consume_audio.simps)
  qed simp
  obtain r where r: "model_generate_content env (ai_calls w) (AudioPrompt ?d) = AiReturns r"
  proof (cases "model_generate_content env (ai_calls w) (AudioPrompt ?d)")
    case (AiRaises msg)
    from assms(5,6) have False
      by (auto simp: process_audio_input_raises[OF assms(4) decodes AiRaises]
          consume_audio_error simp del: consume_audio.simps)
    then show ?thesis ..
  qed blast
  obtain t where t: "response_text r = Some t"
  proof (cases "response_text r")
    case None
    from assms(5,6) have False
      by (auto simp: process_audio_input_silent[OF assms(4) decodes r None])
    then show ?thesis ..
  qed blast
  note T = handle_audio_input_text[OF assms(1,2,3,4) decodes r t]
  have frames: "sent (snd (handle_audio_input env w dat)) =
      sent w @
        [PDict [(''action'', PStr ''error''), (''code'', PStr ''CRITICAL_AUDIO_ERROR''),
                (''message'',
                 PStr ''Audio processing unavailable, please restart session'')]]"
    by (simp add: T critical_audio_error_def error_frame_def)
  have rooms: "room_sessions (snd (handle_audio_input env w dat)) = room_sessions w"
    by (simp add: T)
  from assms(3,4) have "registered_active w sid" by (simp add: registered_active_def)
  from handle_audio_input_active[OF assms(1,2) this]
  have reg: "registered_active (snd (handle_audio_input env w dat)) sid" by simp
  from first frames reg rooms show ?thesis by simp
qed

theorem stream_failure_is_critical_witness:
  "validate_AudioInputMessage (demo_env (model_says ''Open the S3 console'') real) audio_s1 =
     Inr \<lparr>aim_session_id = ''s1'', aim_data = ''AAAA''\<rparr> \<and>
   session_connectors demo_world ''s1'' = Some demo_connector \<and>
   active_connector demo_connector ''s1'' \<and>
   fst (process_audio_input (demo_env (model_says ''Open the S3 console'') real)
          demo_connector demo_world ''AAAA'' ''s1'') =
     [YieldText ''Open the S3 console'' ''s1'', YieldAudio ''s1''] \<and>
   fst (consume_audio (demo_env (model_says ''Open the S3 console'') real)
          (demo_world\<lparr>ai_calls := 1, ticks := 12\<rparr>) ''s1''
          [YieldText ''Open the S3 console'' ''s1'', YieldAudio ''s1'']) =
     Inl (TypeError ''Object of type datetime is not JSON serializable'') \<and>
   sent (snd (handle_audio_input (demo_env (model_says ''Open the S3 console'') real)
                demo_world audio_s1)) =
     [PDict [(''action'', PStr ''error''), (''code'', PStr ''CRITICAL_AUDIO_ERROR''),
             (''message'', PStr ''Audio processing unavailable, please restart session'')]] \<and>
   registered_active
     (snd (handle_audio_input (demo_env (model_says ''Open the S3 console'') real)
             demo_world audio_s1)) ''s1''"
proof -
  let ?E = "demo_env (model_says ''Open the S3 console'') real"
  let ?c1 = "append_history (append_history demo_connector
                (UserAudio (clock ?E (ticks demo_world)) ''s1''))
              (AssistantText ''Open the S3 console'' (clock ?E (Suc (ticks demo_world))) ''s1'')"
  let ?w1 = "demo_world\<lparr>ai_calls := Suc (ai_calls demo_world),
                ticks := Suc (Suc (ticks demo_world))\<rparr>"
  let ?w2 = "?w1\<lparr>session_connectors := (session_connectors ?w1)(''s1'' \<mapsto> ?c1)\<rparr>"
  have says: "model_generate_content ?E (ai_calls demo_world) (AudioPrompt ''AAAA'') =
      AiReturns (Some (Response (Some ''Open the S3 console'')))"
    by (simp add: demo_env_simps model_says_def)
  have rt: "response_text (Some (Response (Some ''Open the S3 console''))) =
      Some ''Open the S3 console''"
    by (simp add: response_text_def)
  have gen: "process_audio_input ?E demo_connector demo_world ''AAAA'' ''s1'' =
      ([YieldText ''Open the S3 console'' ''s1'', YieldAudio ''s1''], ?c1, ?w1)"
    by (rule process_audio_input_text[OF demo_connector_active demo_env_simps(3) says rt])
  have gen': "process_audio_input ?E demo_connector demo_world
        (aim_data \<lparr>aim_session_id = ''s1'', aim_data = ''AAAA''\<rparr>) ''s1'' =
      ([YieldText ''Open the S3 console'' ''s1'', YieldAudio ''s1''], ?c1, ?w1)"
    using gen by simp
  have cons: "consume_audio ?E ?w2 ''s1''
        [YieldText ''Open the S3 console'' ''s1'', YieldAudio ''s1''] =
      (Inl (TypeError ''Object of type datetime is not JSON serializable''),
       ?w2\<lparr>ticks := Suc (Suc (ticks ?w2))\<rparr>)"
    by (rule consume_audio_text)
  have cons': "fst (consume_audio ?E (demo_world\<lparr>ai_calls := 1, ticks := 12\<rparr>) ''s1''
        [YieldText ''Open the S3 console'' ''s1'', YieldAudio ''s1'']) =
      Inl (TypeError ''Object of type datetime is not JSON serializable'')"
    by (simp only: consume_audio_text fst_conv)
  have k: "aim_session_id \<lparr>aim_session_id = ''s1'', aim_data = ''AAAA''\<rparr> = ''s1''"
    by simp
  note T = stream_failure_is_critical[OF validate_audio_s1 k demo_world_s1
      demo_connector_active gen' cons]
  have e: "sent demo_world = []" by (simp add: demo_world_def)
  note frames = T[THEN conjunct2, THEN conjunct1, unfolded e append_Nil]
  note reg = T[THEN conjunct2, THEN conjunct2, THEN conjunct1]
  have g: "fst (process_audio_input ?E demo_connector demo_world ''AAAA'' ''s1'') =
      [YieldText ''Open the S3 console'' ''s1'', YieldAudio ''s1'']"
    by (simp only: gen fst_conv)
  from validate_audio_s1[of "model_says ''Open the S3 console''" real] demo_world_s1
    demo_connector_active g cons' frames reg
  show ?thesis by blast
qed

text \<open>
  C6. The model answers an audio submission to the registered session \<^verbatim>\<open>s1\<close> with a
  non-empty text. The handler builds the \<^verbatim>\<open>TextResponseMessage\<close>, but
  \<^verbatim>\<open>json.dumps(text_message.dict())\<close> raises on the \<^verbatim>\<open>datetime\<close> of its
  \<^verbatim>\<open>timestamp\<close> field; the inner \<^verbatim>\<open>except\<close> answers with \<^verbatim>\<open>CRITICAL_AUDIO_ERROR\<close>. That
  is the only frame sent: no \<^verbatim>\<open>text_response\<close>, no \<^verbatim>\<open>audio_output\<close>. The two history
  entries were appended before the first \<^verbatim>\<open>yield\<close>.
\<close>

theorem audio_text_reply_evaluated:
  "handle_audio_input (demo_env (model_says ''Open the S3 console'') real) demo_world audio_s1 =
     (Inr (), demo_world\<lparr>ai_calls := 1, ticks := 14,
        session_connectors := [''s1'' \<mapsto> demo_connector\<lparr>session := Some (demo_session
           \<lparr>s_history := [UserAudio 10 ''s1'', AssistantText ''Open the S3 console'' 11 ''s1'']\<rparr>)\<rparr>],
        sent := [critical_audio_error]\<rparr>)"
  using handle_audio_input_text [of "demo_env (model_says ''Open the S3 console'') real"
      audio_s1 "\<lparr>aim_session_id = ''s1'', aim_data = ''AAAA''\<rparr>" "''s1''" demo_world
      demo_connector "Some (Response (Some ''Open the S3 console''))" "''Open the S3 console''"]
  by (simp add: validate_audio_s1 demo_world_s1 demo_connector_active demo_env_simps
      model_says_def response_text_def)
     (simp add: demo_world_def append_history_def demo_connector_def demo_session_def)

text \<open>
  C10. When the model returns no text for a submission to a registered, active session
  (no response, a response without text, or an empty text), the generator yields nothing
  and leaves the connector as it was, and the handler sends nothing: the world differs
  only in the count of model calls.
\<close>

theorem no_text_is_silent:
  assumes "session_connectors w sid = Some c" "active_connector c sid"
    and "response_text r = None"
  shows "(validate_AudioInputMessage env adat = Inr am \<and> aim_session_id am = sid \<and>
          b64decode_error env (aim_data am) = None \<and>
          model_generate_content env (ai_calls w) (AudioPrompt (aim_data am)) = AiReturns r \<longrightarrow>
            process_audio_input env c w (aim_data am) sid =
              ([], c, w\<lparr>ai_calls := Suc (ai_calls w)\<rparr>) \<and>
            handle_audio_input env w adat = (Inr (), w\<lparr>ai_calls := Suc (ai_calls w)\<rparr>)) \<and>
         (validate_ScreenShareFrameMessage env sdat = Inr sm \<and> sfm_session_id sm = sid \<and>
          model_generate_content env (ai_calls w) (ScreenPrompt (sfm_data sm)) = AiReturns r \<longrightarrow>
            process_screen_share env c w (sfm_data sm) sid =
              ([], c, w\<lparr>ai_calls := Suc (ai_calls w)\<rparr>) \<and>
            handle_screen_share_frame env w sdat = (Inr (), w\<lparr>ai_calls := Suc (ai_calls w)\<rparr>))"
  using assms
  by (simp add: process_audio_input_silent handle_audio_input_silent
      process_screen_share_silent handle_screen_share_frame_silent)

theorem no_text_is_silent_witness:
  "session_connectors demo_world ''s1'' = Some demo_connector \<and>
   active_connector demo_connector ''s1'' \<and>
   response_text None = None \<and> response_text (Some (Response (Some []))) = None \<and>
   validate_AudioInputMessage (demo_env model_returns_none real) audio_s1 =
     Inr \<lparr>aim_session_id = ''s1'', aim_data = ''AAAA''\<rparr> \<and>
   model_generate_content (demo_env model_returns_none real) (ai_calls demo_world)
     (AudioPrompt ''AAAA'') = AiReturns None \<and>
   handle_audio_input (demo_env model_returns_none real) demo_world audio_s1 =
     (Inr (), demo_world\<lparr>ai_calls := Suc (ai_calls demo_world)\<rparr>) \<and>
   validate_ScreenShareFrameMessage (demo_env (model_says []) real) screen_s1 =
     Inr \<lparr>sfm_session_id = ''s1'', sfm_data = ''iVBORw==''\<rparr> \<and>
   model_generate_content (demo_env (model_says []) real) (ai_calls demo_world)
     (ScreenPrompt ''iVBORw=='') = AiReturns (Some (Response (Some []))) \<and>
   handle_screen_share_frame (demo_env (model_says []) real) demo_world screen_s1 =
     (Inr (), demo_world\<lparr>ai_calls := Suc (ai_calls demo_world)\<rparr>)"
  using no_text_is_silent [of demo_world "''s1''" demo_connector None
      "demo_env model_returns_none real" audio_s1
      "\<lparr>aim_session_id = ''s1'', aim_data = ''AAAA''\<rparr>"
      screen_s1 "\<lparr>sfm_session_id = ''s1'', sfm_data = ''iVBORw==''\<rparr>"]
    no_text_is_silent [of demo_world "''s1''" demo_connector "Some (Response (Some []))"
      "demo_env (model_says []) real" audio_s1
      "\<lparr>aim_session_id = ''s1'', aim_data = ''AAAA''\<rparr>"
      screen_s1 "\<lparr>sfm_session_id = ''s1'', sfm_data = ''iVBORw==''\<rparr>"]
  by (simp add: validate_audio_s1 validate_screen_s1 demo_world_s1 demo_connector_active
      demo_env_simps model_returns_none_def model_says_def response_text_def)


text \<open>
  C4 (amended). An end-session command for a registered, active session sends one
  \<^verbatim>\<open>session_ended\<close> frame whose \<^verbatim>\<open>duration\<close> is the clock reading taken by
  \<^verbatim>\<open>end_session\<close> minus the session's start time, and removes the identifier from all
  three dicts of the manager. The duration is not negative when the clock has not gone
  back between the two readings: in a world the loop can reach (\<open>world_ok\<close>) the start
  time is an earlier reading, so a clock that never goes back gives a duration of at
  least zero; \<^verbatim>\<open>time.time()\<close> itself may be set back. In the resulting world an
  end-session command and an audio submission for the same identifier each send
  \<^verbatim>\<open>SESSION_NOT_FOUND\<close> and change nothing else.
\<close>

theorem end_session_duration_and_removal:
  assumes "validate_EndSessionMessage env dat = Inr em" "esm_session_id em = sid"
    and "session_connectors w sid = Some c" "active_connector c sid" "session c = Some s"
    and "w' = snd (handle_end_session env w dat)"
  shows "handle_end_session env w dat =
           (Inr (), w\<lparr>ticks := Suc (ticks w),
              active_connections := (active_connections w)(sid := None),
              session_connectors := (session_connectors w)(sid := None),
              room_sessions := (room_sessions w)(sid := None),
              sent := sent w @
                [PDict [(''action'', PStr ''session_ended''), (''session_id'', PStr sid),
                       (''status'', PStr ''success''),
                       (''message'', PStr ''Session ended successfully''),
                       (''duration'', PFloat (clock env (ticks w) - s_start_time s))]]\<rparr>) \<and>
         (world_ok env w \<and> mono (clock env) \<longrightarrow>
            0 \<le> clock env (ticks w) - s_start_time s) \<and>
         session_connectors w' sid = None \<and> room_sessions w' sid = None \<and>
         (validate_EndSessionMessage env dat_again = Inr em_again \<and> esm_session_id em_again = sid \<longrightarrow>
            handle_end_session env w' dat_again =
              (Inr (), w'\<lparr>sent := sent w' @
                [PDict [(''action'', PStr ''error''), (''code'', PStr ''SESSION_NOT_FOUND''),
                       (''message'', PStr (''Session '' @ sid @ '' not found''))]]\<rparr>)) \<and>
         (validate_AudioInputMessage env adat = Inr am \<and> aim_session_id am = sid \<longrightarrow>
            handle_audio_input env w' adat =
              (Inr (), w'\<lparr>sent := sent w' @
                [PDict [(''action'', PStr ''error''), (''code'', PStr ''SESSION_NOT_FOUND''),
                       (''message'', PStr (''Session '' @ sid @ '' not found''))]]\<rparr>))"
proof -
  from assms(4,5) have sid: "s_id s = sid"
    by (auto dest: active_connectorD)
  note ended = handle_end_session_registered[OF assms(1,2,3,5) sid,
      unfolded session_ended_frame_def]
  with assms(6) have gone: "session_connectors w' sid = None" "room_sessions w' sid = None"
    by simp_all
  from gone(1) have again: "validate_EndSessionMessage env dat_again = Inr em_again \<and>
      esm_session_id em_again = sid \<longrightarrow>
      handle_end_session env w' dat_again =
        (Inr (), w'\<lparr>sent := sent w' @
                [PDict [(''action'', PStr ''error''), (''code'', PStr ''SESSION_NOT_FOUND''),
                       (''message'', PStr (''Session '' @ sid @ '' not found''))]]\<rparr>)"
    by (simp add: handle_end_session_unregistered session_not_found_def error_frame_def)
  from gone(1) have audio: "validate_AudioInputMessage env adat = Inr am \<and>
      aim_session_id am = sid \<longrightarrow>
      handle_audio_input env w' adat =
        (Inr (), w'\<lparr>sent := sent w' @
                [PDict [(''action'', PStr ''error''), (''code'', PStr ''SESSION_NOT_FOUND''),
                       (''message'', PStr (''Session '' @ sid @ '' not found''))]]\<rparr>)"
    by (simp add: handle_audio_input_unregistered session_not_found_def error_frame_def)
  have nonneg: "world_ok env w \<and> mono (clock env) \<longrightarrow>
      0 \<le> clock env (ticks w) - s_start_time s"
    using world_ok_duration[OF _ _ assms(3,5)] by blast
  from ended gone again audio nonneg show ?thesis by blast
qed

theorem end_session_duration_and_removal_witness:
  "validate_EndSessionMessage (demo_env model_raises real) end_s1 = Inr \<lparr>esm_session_id = ''s1''\<rparr> \<and>
   session_connectors demo_world ''s1'' = Some demo_connector \<and>
   active_connector demo_connector ''s1'' \<and> session demo_connector = Some demo_session \<and>
   world_ok (demo_env model_raises real) demo_world \<and> mono (real :: nat \<Rightarrow> real) \<and>
   0 \<le> clock (demo_env model_raises real) (ticks demo_world) - s_start_time demo_session \<and>
   validate_AudioInputMessage (demo_env model_raises real) audio_s1 =
     Inr \<lparr>aim_session_id = ''s1'', aim_data = ''AAAA''\<rparr> \<and>
   sent (snd (handle_end_session (demo_env model_raises real) demo_world end_s1)) =
     [PDict [(''action'', PStr ''session_ended''), (''session_id'', PStr ''s1''),
             (''status'', PStr ''success''),
             (''message'', PStr ''Session ended successfully''),
             (''duration'', PFloat 5)]] \<and>
   session_connectors (snd (handle_end_session (demo_env model_raises real) demo_world end_s1))
     ''s1'' = None \<and>
   sent (snd (handle_end_session (demo_env model_raises real)
           (snd (handle_end_session (demo_env model_raises real) demo_world end_s1)) end_s1)) =
     [PDict [(''action'', PStr ''session_ended''), (''session_id'', PStr ''s1''),
             (''status'', PStr ''success''),
             (''message'', PStr ''Session ended successfully''),
             (''duration'', PFloat 5)],
      PDict [(''action'', PStr ''error''), (''code'', PStr ''SESSION_NOT_FOUND''),
             (''message'', PStr ''Session s1 not found'')]] \<and>
   sent (snd (handle_audio_input (demo_env model_raises real)
           (snd (handle_end_session (demo_env model_raises real) demo_world end_s1)) audio_s1)) =
     [PDict [(''action'', PStr ''session_ended''), (''session_id'', PStr ''s1''),
             (''status'', PStr ''success''),
             (''message'', PStr ''Session ended successfully''),
             (''duration'', PFloat 5)],
      PDict [(''action'', PStr ''error''), (''code'', PStr ''SESSION_NOT_FOUND''),
             (''message'', PStr ''Session s1 not found'')]]"
proof -
  let ?E = "demo_env model_raises real"
  let ?w' = "snd (handle_end_session ?E demo_world end_s1)"
  have s: "session demo_connector = Some demo_session"
    by (simp add: demo_connector_def)
  have wok: "world_ok ?E demo_world"
  proof -
    have "session_ok ?E (ticks demo_world) ''s1'' demo_connector"
      unfolding session_ok_def
    proof (intro conjI exI)
      show "active_connector demo_connector ''s1''" by (rule demo_connector_active)
      show "session demo_connector = Some demo_session" by (rule s)
      show "(5::nat) < ticks demo_world" by (simp add: demo_world_def)
      show "s_start_time demo_session = clock ?E 5"
        by (simp add: demo_session_def demo_env_simps)
    qed
    then show ?thesis
      by (auto simp: world_ok_def demo_world_def split: if_splits)
  qed
  have mn: "mono (real :: nat \<Rightarrow> real)" by (simp add: mono_def)
  have mn': "mono (clock ?E)" by (simp add: demo_env_simps mono_def)
  have d: "clock ?E (ticks demo_world) - s_start_time demo_session = 5"
    by (simp add: demo_session_def demo_world_def demo_env_simps)
  have e: "sent demo_world = []"
    by (simp add: demo_world_def)
  have k: "esm_session_id \<lparr>esm_session_id = ''s1''\<rparr> = ''s1''"
    by simp
  note T = end_session_duration_and_removal [where env = ?E and dat = end_s1
      and em = "\<lparr>esm_session_id = ''s1''\<rparr>" and sid = "''s1''" and w = demo_world
      and c = demo_connector and s = demo_session and w' = ?w' and dat_again = end_s1
      and em_again = "\<lparr>esm_session_id = ''s1''\<rparr>" and adat = audio_s1
      and am = "\<lparr>aim_session_id = ''s1'', aim_data = ''AAAA''\<rparr>",
      OF validate_end_s1 k demo_world_s1 demo_connector_active s refl]
  note ended = T[THEN conjunct1]
  note gone = T[THEN conjunct2, THEN conjunct2, THEN conjunct1]
  have t: "0 \<le> clock ?E (ticks demo_world) - s_start_time demo_session"
    by (rule T[THEN conjunct2, THEN conjunct1, rule_format]) (simp add: wok mn')
  note again_imp = T[THEN conjunct2, THEN conjunct2, THEN conjunct2, THEN conjunct2,
      THEN conjunct1, rule_format]
  note audio_imp = T[THEN conjunct2, THEN conjunct2, THEN conjunct2, THEN conjunct2,
      THEN conjunct2, rule_format]
  have first: "sent ?w' =
     [PDict [(''action'', PStr ''session_ended''), (''session_id'', PStr ''s1''),
             (''status'', PStr ''success''),
             (''message'', PStr ''Session ended successfully''),
             (''duration'', PFloat 5)]]"
    by (simp add: ended d e)
  have "handle_end_session ?E ?w' end_s1 =
      (Inr (), ?w'\<lparr>sent := sent ?w' @
         [PDict [(''action'', PStr ''error''), (''code'', PStr ''SESSION_NOT_FOUND''),
                 (''message'', PStr (''Session '' @ ''s1'' @ '' not found''))]]\<rparr>)"
    by (rule again_imp) (simp add: validate_end_s1)
  then have again: "sent (snd (handle_end_session ?E ?w' end_s1)) =
     [PDict [(''action'', PStr ''session_ended''), (''session_id'', PStr ''s1''),
             (''status'', PStr ''success''),
             (''message'', PStr ''Session ended successfully''),
             (''duration'', PFloat 5)],
      PDict [(''action'', PStr ''error''), (''code'', PStr ''SESSION_NOT_FOUND''),
             (''message'', PStr ''Session s1 not found'')]]"
    by (simp add: first)
  have "handle_audio_input ?E ?w' audio_s1 =
      (Inr (), ?w'\<lparr>sent := sent ?w' @
         [PDict [(''action'', PStr ''error''), (''code'', PStr ''SESSION_NOT_FOUND''),
                 (''message'', PStr (''Session '' @ ''s1'' @ '' not found''))]]\<rparr>)"
    by (rule audio_imp) (simp add: validate_audio_s1)
  then have audio: "sent (snd (handle_audio_input ?E ?w' audio_s1)) =
     [PDict [(''action'', PStr ''session_ended''), (''session_id'', PStr ''s1''),
             (''status'', PStr ''success''),
             (''message'', PStr ''Session ended successfully''),
             (''duration'', PFloat 5)],
      PDict [(''action'', PStr ''error''), (''code'', PStr ''SESSION_NOT_FOUND''),
             (''message'', PStr ''Session s1 not found'')]]"
    by (simp add: first)
  from validate_end_s1 validate_audio_s1 demo_world_s1 demo_connector_active s wok mn t first
    gone again audio
  show ?thesis by blast
qed

text \<open>
  The claim as stated fails. The clock is set back while session \<^verbatim>\<open>s1\<close> is open:
  it reads 98 when \<^verbatim>\<open>start_session\<close> takes the start time and 96 when
  \<^verbatim>\<open>end_session\<close> takes the end time. The two frames of the connection, a
  start-session and an end-session command, are answered with \<^verbatim>\<open>session_started\<close> and
  with a \<^verbatim>\<open>session_ended\<close> frame whose duration is \<open>- 2\<close>.
\<close>

theorem clock_set_back_negative_duration:
  "fst (livekit_endpoint (demo_env model_returns_none receding_clock) initial_world
          [Parsed (PDict start_s1), Parsed (PDict end_s1)]) = None \<and>
   sent (snd (livekit_endpoint (demo_env model_returns_none receding_clock) initial_world
          [Parsed (PDict start_s1), Parsed (PDict end_s1)])) =
     [session_started_frame (demo_env model_returns_none receding_clock) ''s1'' ''voice-ai-s1''
        (fst (create_access_token (demo_env model_returns_none receding_clock)
                initial_world ''voice-ai-s1'' ''u1'')),
      PDict [(''action'', PStr ''session_ended''), (''session_id'', PStr ''s1''),
             (''status'', PStr ''success''),
             (''message'', PStr ''Session ended successfully''),
             (''duration'', PFloat (- 2))]] \<and>
   (- 2 :: real) < 0"
proof -
  let ?E = "demo_env model_returns_none receding_clock"
  let ?sm = "\<lparr>ssm_user_id = ''u1'', ssm_session_id = Some ''s1'', ssm_config = Some []\<rparr>"
  let ?s = "started_session ''s1'' ''u1'' (Some []) (clock ?E (ticks initial_world + 2)) []"
  let ?c = "\<lparr>model_name = gemini_model (settings ?E),
             genai_model = Some (gemini_model (settings ?E)),
             session = Some ?s, is_connected = True\<rparr>"
  let ?w1 = "snd (handle_start_session ?E initial_world start_s1)"
  have sid: "ssm_session_id ?sm = Some ''s1''" and ne: "''s1'' \<noteq> []" by simp_all
  have none: "model_generate_content ?E (ai_calls initial_world) GreetingPrompt = AiReturns None"
    by (simp add: demo_env_simps model_returns_none_def)
  have rt: "response_text None = None" by (simp add: response_text_def)
  have room: "livekit_room_prefix (settings ?E) @ ''-'' @ ''s1'' = ''voice-ai-s1''"
    by (simp add: demo_env_simps demo_settings_def)
  note H = handle_start_session_returns[OF validate_start_s1 sid ne demo_env_simps(4) none,
      unfolded rt room Let_def option.case]
  have sent1: "sent ?w1 = [session_started_frame ?E ''s1'' ''voice-ai-s1''
      (fst (create_access_token ?E initial_world ''voice-ai-s1'' ''u1''))]"
    by (simp add: H) (simp add: initial_world_def)
  have reg1: "session_connectors ?w1 ''s1'' = Some ?c"
    by (simp add: H)
  have t0: "ticks initial_world = 0" by (simp add: initial_world_def)
  have "ticks ?w1 = Suc (ticks initial_world + 3)"
    by (simp add: H)
  then have ticks1: "ticks ?w1 = 4"
    by (simp only: t0)
  have sess: "session ?c = Some ?s" by simp
  have sid': "s_id ?s = ''s1''" by (simp add: started_session_def)
  have k: "esm_session_id \<lparr>esm_session_id = ''s1''\<rparr> = ''s1''" by simp
  note En = handle_end_session_registered[OF validate_end_s1 k reg1 sess sid']
  have sent2: "sent (snd (handle_end_session ?E ?w1 end_s1)) =
      [session_started_frame ?E ''s1'' ''voice-ai-s1''
        (fst (create_access_token ?E initial_world ''voice-ai-s1'' ''u1'')),
       PDict [(''action'', PStr ''session_ended''), (''session_id'', PStr ''s1''),
             (''status'', PStr ''success''),
             (''message'', PStr ''Session ended successfully''),
             (''duration'', PFloat (- 2))]]"
    by (simp add: En sent1 session_ended_frame_def ticks1 t0 started_session_def
        demo_env_simps receding_clock_def)
  have a1: "dict_get start_s1 ''action'' = Some (PStr ''start_session'')"
    by (simp add: start_s1_def dict_get_def)
  have a2: "dict_get end_s1 ''action'' = Some (PStr ''end_session'')"
    by (simp add: end_s1_def dict_get_def)
  have loop: "livekit_endpoint ?E initial_world [Parsed (PDict start_s1), Parsed (PDict end_s1)] =
      (None, snd (handle_end_session ?E ?w1 end_s1))"
    by (simp only: livekit_endpoint_fold foldl.simps process_message_start[OF a1]
        process_message_end[OF a2])
  show ?thesis
    by (simp only: loop fst_conv snd_conv sent2) simp
qed

text \<open>
  C9 (amended). A token issued when the clock reads \<open>t\<close> is the canonical string
  \<^verbatim>\<open>key:identity:room:expiry\<close>, a colon, and the HMAC of exactly that string under the
  secret, with \<open>expiry = int(t) + 3600\<close>: the time is cut to whole seconds first. Two
  issuances whose times fall in different whole seconds embed different expiries, are
  signed over different canonical strings and are different tokens; two issuances within
  the same second give the same token. Each token's signature is the HMAC, under the same
  secret, of the canonical string it carries.
\<close>

theorem access_token_format:
  assumes "clock env (ticks w1) = t1" "clock env (ticks w2) = t2"
  shows "fst (create_access_token env w1 room ident) =
           token_data env room ident (py_int t1 + 3600) @ '':'' @
           hmac_sha256_hex env (livekit_api_secret (settings env))
             (token_data env room ident (py_int t1 + 3600)) \<and>
         token_data env room ident (py_int t1 + 3600) =
           livekit_api_key (settings env) @ '':'' @ ident @ '':'' @ room @ '':'' @
           str_int (py_int t1 + 3600) \<and>
         (py_int t1 \<noteq> py_int t2 \<longrightarrow>
            str_int (py_int t1 + 3600) \<noteq> str_int (py_int t2 + 3600) \<and>
            token_data env room ident (py_int t1 + 3600) \<noteq>
              token_data env room ident (py_int t2 + 3600) \<and>
            fst (create_access_token env w1 room ident) \<noteq>
              fst (create_access_token env w2 room ident)) \<and>
         (py_int t1 = py_int t2 \<longrightarrow>
            fst (create_access_token env w1 room ident) =
              fst (create_access_token env w2 room ident))"
proof -
  let ?e1 = "py_int t1 + 3600" and ?e2 = "py_int t2 + 3600"
  let ?h = "hmac_sha256_hex env (livekit_api_secret (settings env))"
  from assms have tok1: "fst (create_access_token env w1 room ident) =
      token_data env room ident ?e1 @ '':'' @ ?h (token_data env room ident ?e1)"
    and tok2: "fst (create_access_token env w2 room ident) =
      token_data env room ident ?e2 @ '':'' @ ?h (token_data env room ident ?e2)"
    by (simp_all add: fst_create_access_token)
  have canon: "token_data env room ident ?e1 =
      livekit_api_key (settings env) @ '':'' @ ident @ '':'' @ room @ '':'' @ str_int ?e1"
    by (simp add: token_data_def)
  have differ: "str_int ?e1 \<noteq> str_int ?e2 \<and>
      token_data env room ident ?e1 \<noteq> token_data env room ident ?e2 \<and>
      fst (create_access_token env w1 room ident) \<noteq> fst (create_access_token env w2 room ident)"
    if ne: "py_int t1 \<noteq> py_int t2"
  proof -
    from ne have e: "?e1 \<noteq> ?e2" by simp
    then have "str_int ?e1 \<noteq> str_int ?e2" by (auto dest: str_int_inj)
    moreover from e have "token_data env room ident ?e1 \<noteq> token_data env room ident ?e2"
      by (rule token_data_differ)
    moreover from e have "fst (create_access_token env w1 room ident) \<noteq>
        fst (create_access_token env w2 room ident)"
      unfolding tok1 tok2 by (rule tokens_differ)
    ultimately show ?thesis by simp
  qed
  have same: "fst (create_access_token env w1 room ident) =
      fst (create_access_token env w2 room ident)" if "py_int t1 = py_int t2"
    using that by (simp add: tok1 tok2)
  from tok1 canon differ same show ?thesis by blast
qed


theorem access_token_format_witness:
  "clock (demo_env model_raises real) (ticks initial_world) = 0 \<and>
   clock (demo_env model_raises real) (ticks demo_world) = 10 \<and>
   py_int 0 \<noteq> py_int 10 \<and>
   fst (create_access_token (demo_env model_raises real) initial_world ''r1'' ''u1'') =
     ''devkey:u1:r1:'' @ str_int 3600 @ '':hmac(secret,devkey:u1:r1:'' @ str_int 3600 @ '')'' \<and>
   fst (create_access_token (demo_env model_raises real) initial_world ''r1'' ''u1'') \<noteq>
     fst (create_access_token (demo_env model_raises real) demo_world ''r1'' ''u1'') \<and>
   py_int (clock (demo_env model_raises subsecond_clock) (ticks initial_world)) =
     py_int (clock (demo_env model_raises subsecond_clock) (ticks demo_world)) \<and>
   fst (create_access_token (demo_env model_raises subsecond_clock) initial_world ''r1'' ''u1'') =
     fst (create_access_token (demo_env model_raises subsecond_clock) demo_world ''r1'' ''u1'')"
proof -
  let ?E = "demo_env model_raises real" and ?F = "demo_env model_raises subsecond_clock"
  have t0: "clock ?E (ticks initial_world) = 0" and t10: "clock ?E (ticks demo_world) = 10"
    by (simp_all add: demo_env_simps initial_world_def demo_world_def)
  have ne: "py_int 0 \<noteq> py_int 10"
    by (simp add: py_int_def)
  have s: "py_int (clock ?F (ticks initial_world)) = py_int (clock ?F (ticks demo_world))"
    by (simp add: demo_env_simps initial_world_def demo_world_def subsecond_clock_def py_int_def)
  note A = access_token_format [where env = ?E and ?w1.0 = initial_world and ?w2.0 = demo_world
      and room = "''r1''" and ident = "''u1''", OF t0 t10]
  note B = access_token_format [where env = ?F and ?w1.0 = initial_world and ?w2.0 = demo_world
      and room = "''r1''" and ident = "''u1''", OF refl refl]
  from A have shape: "fst (create_access_token ?E initial_world ''r1'' ''u1'') =
      ''devkey:u1:r1:'' @ str_int 3600 @ '':hmac(secret,devkey:u1:r1:'' @ str_int 3600 @ '')''"
    by (simp add: py_int_def demo_env_def demo_settings_def)
  from A ne have differ: "fst (create_access_token ?E initial_world ''r1'' ''u1'') \<noteq>
      fst (create_access_token ?E demo_world ''r1'' ''u1'')"
    by blast
  from B s have same: "fst (create_access_token ?F initial_world ''r1'' ''u1'') =
      fst (create_access_token ?F demo_world ''r1'' ''u1'')"
    by blast
  from t0 t10 ne shape differ s same show ?thesis by blast
qed

text \<open>
  The claim as stated fails: the clock reads 100.2 at one issuance and 100.7 at the
  other, two different times, and the two tokens, hence their expiries and signatures,
  are the same.
\<close>

theorem same_second_same_token:
  "clock (demo_env model_raises subsecond_clock) (ticks initial_world) \<noteq>
     clock (demo_env model_raises subsecond_clock) (ticks demo_world) \<and>
   fst (create_access_token (demo_env model_raises subsecond_clock) initial_world ''r1'' ''u1'') =
     fst (create_access_token (demo_env model_raises subsecond_clock) demo_world ''r1'' ''u1'')"
  by (simp add: fst_create_access_token demo_env_simps initial_world_def demo_world_def
      subsecond_clock_def py_int_def)

text \<open>
  C1 (amended). A start-session command with a fresh identifier, with the model built,
  succeeds whenever the greeting call returns: \<^verbatim>\<open>start_session\<close> hands back a non-empty
  greeting, the model's text if it is non-empty and the fixed default otherwise, and the
  handler registers an active session under the identifier and sends
  \<^verbatim>\<open>session_started\<close>. When the greeting call raises, the exception leaves
  \<^verbatim>\<open>start_session\<close>: the handler sends \<^verbatim>\<open>SESSION_START_ERROR\<close> and registers nothing.
\<close>

theorem fresh_start_session:
  assumes "validate_StartSessionMessage env dat = Inr sm" "ssm_session_id sm = Some sid"
    and "sid \<noteq> []" "session_connectors w sid = None" "model_init_error env = None"
    and "room = livekit_room_prefix (settings env) @ ''-'' @ sid"
    and "token = fst (create_access_token env w room (ssm_user_id sm))"
    and "w' = snd (handle_start_session env w dat)"
  shows "(model_generate_content env (ai_calls w) GreetingPrompt = AiReturns r \<longrightarrow>
            fst (start_session env (snd (initialize env (new_connector env)))
                   (snd (create_access_token env w room (ssm_user_id sm)))
                   sid (ssm_user_id sm) (ssm_config sm)) =
              Inr \<lparr>sr_status = ''success'', sr_session_id = sid,
                    sr_message = ''Session started successfully'',
                    sr_greeting =
                      (case response_text r of None \<Rightarrow> default_greeting | Some g \<Rightarrow> g)\<rparr> \<and>
            (case response_text r of None \<Rightarrow> default_greeting | Some g \<Rightarrow> g) \<noteq> [] \<and>
            fst (handle_start_session env w dat) = Inr () \<and>
            sent w' = sent w @ [session_started_frame env sid room token] \<and>
            registered_active w' sid \<and>
            session_connectors w' = (session_connectors w)(sid := session_connectors w' sid)) \<and>
         (model_generate_content env (ai_calls w) GreetingPrompt = AiRaises msg \<longrightarrow>
            handle_start_session env w dat =
              (Inr (), w\<lparr>ticks := ticks w + 3, ai_calls := Suc (ai_calls w),
                 sent := sent w @ [error_frame ''SESSION_START_ERROR''
                                     (''Failed to start session: '' @ msg)]\<rparr>) \<and>
            session_connectors w' = session_connectors w)"
proof (intro conjI impI)
  assume r: "model_generate_content env (ai_calls w) GreetingPrompt = AiReturns r"
  have aic: "ai_calls (snd (create_access_token env w room (ssm_user_id sm))) = ai_calls w"
    by (simp add: snd_create_access_token)
  have gm: "genai_model (snd (initialize env (new_connector env))) =
      Some (gemini_model (settings env))"
    using assms(5) by (simp add: initialize_def new_connector_def)
  from r aic have r': "model_generate_content env
      (ai_calls (snd (create_access_token env w room (ssm_user_id sm)))) GreetingPrompt =
      AiReturns r" by simp
  show "fst (start_session env (snd (initialize env (new_connector env)))
                   (snd (create_access_token env w room (ssm_user_id sm)))
                   sid (ssm_user_id sm) (ssm_config sm)) =
              Inr \<lparr>sr_status = ''success'', sr_session_id = sid,
                    sr_message = ''Session started successfully'',
                    sr_greeting =
                      (case response_text r of None \<Rightarrow> default_greeting | Some g \<Rightarrow> g)\<rparr>"
    by (simp add: start_session_returns[OF gm r'])
  show "(case response_text r of None \<Rightarrow> default_greeting | Some g \<Rightarrow> g) \<noteq> []"
    by (auto simp: default_greeting_nonempty split: option.splits
        dest: response_text_nonempty)
  note H = handle_start_session_returns[OF assms(1,2,3,5) r]
  show "fst (handle_start_session env w dat) = Inr ()"
    by (simp add: H Let_def)
  show "sent w' = sent w @ [session_started_frame env sid room token]"
    by (simp add: assms(6,7,8) H Let_def)
  show "registered_active w' sid"
    by (simp add: assms(8) H Let_def registered_active_def active_connector_def
        is_session_active_def started_session_def)
  show "session_connectors w' = (session_connectors w)(sid := session_connectors w' sid)"
    by (simp add: assms(8) H Let_def)
next
  assume e: "model_generate_content env (ai_calls w) GreetingPrompt = AiRaises msg"
  note H = handle_start_session_raises[OF assms(1,2,3,5) e]
  show "handle_start_session env w dat =
              (Inr (), w\<lparr>ticks := ticks w + 3, ai_calls := Suc (ai_calls w),
                 sent := sent w @ [error_frame ''SESSION_START_ERROR''
                                     (''Failed to start session: '' @ msg)]\<rparr>)"
    by (rule H)
  show "session_connectors w' = session_connectors w"
    by (simp add: assms(8) H)
qed

theorem fresh_start_session_witness:
  "validate_StartSessionMessage (demo_env model_returns_none real) start_s1 =
     Inr \<lparr>ssm_user_id = ''u1'', ssm_session_id = Some ''s1'', ssm_config = Some []\<rparr> \<and>
   session_connectors initial_world ''s1'' = None \<and>
   model_init_error (demo_env model_returns_none real) = None \<and>
   model_generate_content (demo_env model_returns_none real) (ai_calls initial_world)
     GreetingPrompt = AiReturns None \<and>
   fst (handle_start_session (demo_env model_returns_none real) initial_world start_s1) =
     Inr () \<and>
   registered_active
     (snd (handle_start_session (demo_env model_returns_none real) initial_world start_s1))
     ''s1'' \<and>
   model_generate_content (demo_env model_raises real) (ai_calls initial_world)
     GreetingPrompt = AiRaises ''503 service unavailable'' \<and>
   session_connectors
     (snd (handle_start_session (demo_env model_raises real) initial_world start_s1)) =
     session_connectors initial_world"
proof -
  let ?E = "demo_env model_returns_none real" and ?F = "demo_env model_raises real"
  let ?sm = "\<lparr>ssm_user_id = ''u1'', ssm_session_id = Some ''s1'', ssm_config = Some []\<rparr>"
  have sid: "ssm_session_id ?sm = Some ''s1''" and ne: "''s1'' \<noteq> []" by simp_all
  have fresh: "session_connectors initial_world ''s1'' = None"
    by (simp add: initial_world_def)
  have none: "model_generate_content ?E (ai_calls initial_world) GreetingPrompt = AiReturns None"
    by (simp add: demo_env_simps model_returns_none_def)
  have boom: "model_generate_content ?F (ai_calls initial_world) GreetingPrompt =
      AiRaises ''503 service unavailable''"
    by (simp add: demo_env_simps model_raises_def)
  note A = fresh_start_session [where env = ?E and dat = start_s1 and w = initial_world
      and r = None, OF validate_start_s1 sid ne fresh demo_env_simps(4) refl refl refl]
  note B = fresh_start_session [where env = ?F and dat = start_s1 and w = initial_world
      and msg = "''503 service unavailable''",
      OF validate_start_s1 sid ne fresh demo_env_simps(4) refl refl refl]
  from A none have ok: "fst (handle_start_session ?E initial_world start_s1) = Inr ()"
    and reg: "registered_active (snd (handle_start_session ?E initial_world start_s1)) ''s1''"
    by blast+
  from B boom have same: "session_connectors
      (snd (handle_start_session ?F initial_world start_s1)) = session_connectors initial_world"
    by blast
  from validate_start_s1[of model_returns_none real] fresh demo_env_simps(4)[of model_returns_none real]
    none ok reg boom same
  show ?thesis by blast
qed

text \<open>
  The claim as stated fails: the identifier \<^verbatim>\<open>s1\<close> is fresh and the greeting call
  raises; the only frame sent is \<^verbatim>\<open>SESSION_START_ERROR\<close> and no session is registered.
\<close>

theorem greeting_failure_fails_start:
  "session_connectors initial_world ''s1'' = None \<and>
   handle_start_session (demo_env model_raises real) initial_world start_s1 =
     (Inr (), initial_world\<lparr>ticks := 3, ai_calls := 1,
        sent := [error_frame ''SESSION_START_ERROR''
                   ''Failed to start session: 503 service unavailable'']\<rparr>) \<and>
   session_connectors
     (snd (handle_start_session (demo_env model_raises real) initial_world start_s1))
     ''s1'' = None"
proof -
  let ?F = "demo_env model_raises real"
  let ?sm = "\<lparr>ssm_user_id = ''u1'', ssm_session_id = Some ''s1'', ssm_config = Some []\<rparr>"
  have sid: "ssm_session_id ?sm = Some ''s1''" and ne: "''s1'' \<noteq> []" by simp_all
  have boom: "model_generate_content ?F (ai_calls initial_world) GreetingPrompt =
      AiRaises ''503 service unavailable''"
    by (simp add: demo_env_simps model_raises_def)
  note H = handle_start_session_raises[OF validate_start_s1 sid ne demo_env_simps(4) boom]
  show ?thesis
    by (simp add: H) (simp add: initial_world_def)
qed

text \<open>
  C2 (amended). The handler has no duplicate check. A start-session command whose
  identifier is already registered succeeds whenever the model is built and the greeting
  call returns: it sends \<^verbatim>\<open>session_started\<close> and replaces the identifier's connector
  (a new one, whose history holds at most the new greeting) and its room-session record.
  Only when the greeting call raises is an error sent (\<^verbatim>\<open>SESSION_START_ERROR\<close>), and
  then the manager's dicts are unchanged.
\<close>

theorem duplicate_start_session_overwrites:
  assumes "validate_StartSessionMessage env dat = Inr sm" "ssm_session_id sm = Some sid"
    and "sid \<noteq> []" "session_connectors w sid = Some c_old" "model_init_error env = None"
    and "room = livekit_room_prefix (settings env) @ ''-'' @ sid"
    and "token = fst (create_access_token env w room (ssm_user_id sm))"
  shows "(model_generate_content env (ai_calls w) GreetingPrompt = AiReturns r \<longrightarrow>
            handle_start_session env w dat =
              (Inr (), w\<lparr>
                 ticks := (case response_text r of None \<Rightarrow> ticks w + 4 | Some g \<Rightarrow> ticks w + 5),
                 ai_calls := Suc (ai_calls w),
                 session_connectors := (session_connectors w)(sid \<mapsto>
                   \<lparr>model_name = gemini_model (settings env),
                    genai_model = Some (gemini_model (settings env)),
                    session = Some (started_session sid (ssm_user_id sm) (ssm_config sm)
                       (clock env (ticks w + 2))
                       (case response_text r of None \<Rightarrow> []
                        | Some g \<Rightarrow> [AssistantGreeting g (clock env (ticks w + 3)) sid])),
                    is_connected = True\<rparr>),
                 room_sessions := (room_sessions w)(sid \<mapsto>
                   \<lparr>r_room_name = room, r_user_id = ssm_user_id sm, r_access_token = token,
                    r_start_time = clock env
                      (case response_text r of None \<Rightarrow> ticks w + 3 | Some g \<Rightarrow> ticks w + 4),
                    r_status = ''active''\<rparr>),
                 sent := sent w @ [session_started_frame env sid room token]\<rparr>)) \<and>
         (model_generate_content env (ai_calls w) GreetingPrompt = AiRaises msg \<longrightarrow>
            handle_start_session env w dat =
              (Inr (), w\<lparr>ticks := ticks w + 3, ai_calls := Suc (ai_calls w),
                 sent := sent w @ [error_frame ''SESSION_START_ERROR''
                                     (''Failed to start session: '' @ msg)]\<rparr>))"
proof (intro conjI impI)
  assume r: "model_generate_content env (ai_calls w) GreetingPrompt = AiReturns r"
  show "handle_start_session env w dat =
              (Inr (), w\<lparr>
                 ticks := (case response_text r of None \<Rightarrow> ticks w + 4 | Some g \<Rightarrow> ticks w + 5),
                 ai_calls := Suc (ai_calls w),
                 session_connectors := (session_connectors w)(sid \<mapsto>
                   \<lparr>model_name = gemini_model (settings env),
                    genai_model = Some (gemini_model (settings env)),
                    session = Some (started_session sid (ssm_user_id sm) (ssm_config sm)
                       (clock env (ticks w + 2))
                       (case response_text r of None \<Rightarrow> []
                        | Some g \<Rightarrow> [AssistantGreeting g (clock env (ticks w + 3)) sid])),
                    is_connected = True\<rparr>),
                 room_sessions := (room_sessions w)(sid \<mapsto>
                   \<lparr>r_room_name = room, r_user_id = ssm_user_id sm, r_access_token = token,
                    r_start_time = clock env
                      (case response_text r of None \<Rightarrow> ticks w + 3 | Some g \<Rightarrow> ticks w + 4),
                    r_status = ''active''\<rparr>),
                 sent := sent w @ [session_started_frame env sid room token]\<rparr>)"
    by (cases "response_text r")
       (simp_all add: handle_start_session_returns[OF assms(1,2,3,5) r] Let_def assms(6,7))
next
  assume e: "model_generate_content env (ai_calls w) GreetingPrompt = AiRaises msg"
  show "handle_start_session env w dat =
              (Inr (), w\<lparr>ticks := ticks w + 3, ai_calls := Suc (ai_calls w),
                 sent := sent w @ [error_frame ''SESSION_START_ERROR''
                                     (''Failed to start session: '' @ msg)]\<rparr>)"
    by (rule handle_start_session_raises[OF assms(1,2,3,5) e])
qed

theorem duplicate_start_session_overwrites_witness:
  "validate_StartSessionMessage (demo_env model_returns_none real) start_s1 =
     Inr \<lparr>ssm_user_id = ''u1'', ssm_session_id = Some ''s1'', ssm_config = Some []\<rparr> \<and>
   session_connectors demo_world ''s1'' = Some demo_connector \<and>
   model_generate_content (demo_env model_returns_none real) (ai_calls demo_world)
     GreetingPrompt = AiReturns None \<and>
   sent (snd (handle_start_session (demo_env model_returns_none real) demo_world start_s1)) =
     [session_started_frame (demo_env model_returns_none real) ''s1'' ''voice-ai-s1''
        (fst (create_access_token (demo_env model_returns_none real) demo_world
                ''voice-ai-s1'' ''u1''))] \<and>
   model_generate_content (demo_env model_raises real) (ai_calls demo_world)
     GreetingPrompt = AiRaises ''503 service unavailable'' \<and>
   session_connectors
     (snd (handle_start_session (demo_env model_raises real) demo_world start_s1)) =
     session_connectors demo_world"
proof -
  let ?E = "demo_env model_returns_none real" and ?F = "demo_env model_raises real"
  let ?sm = "\<lparr>ssm_user_id = ''u1'', ssm_session_id = Some ''s1'', ssm_config = Some []\<rparr>"
  have sid: "ssm_session_id ?sm = Some ''s1''" and ne: "''s1'' \<noteq> []" by simp_all
  have none: "model_generate_content ?E (ai_calls demo_world) GreetingPrompt = AiReturns None"
    by (simp add: demo_env_simps model_returns_none_def)
  have boom: "model_generate_content ?F (ai_calls demo_world) GreetingPrompt =
      AiRaises ''503 service unavailable''"
    by (simp add: demo_env_simps model_raises_def)
  have room: "''voice-ai-s1'' = livekit_room_prefix (settings ?E) @ ''-'' @ ''s1''"
    "''voice-ai-s1'' = livekit_room_prefix (settings ?F) @ ''-'' @ ''s1''"
    by (simp_all add: demo_env_simps demo_settings_def)
  have uid: "ssm_user_id ?sm = ''u1''" by simp
  note A = duplicate_start_session_overwrites [where env = ?E and dat = start_s1
      and w = demo_world and r = None,
      OF validate_start_s1 sid ne demo_world_s1 demo_env_simps(4) room(1) refl,
      THEN conjunct1, rule_format, OF none]
  note B = duplicate_start_session_overwrites [where env = ?F and dat = start_s1
      and w = demo_world and msg = "''503 service unavailable''",
      OF validate_start_s1 sid ne demo_world_s1 demo_env_simps(4) room(2) refl,
      THEN conjunct2, rule_format, OF boom]
  have started: "sent (snd (handle_start_session ?E demo_world start_s1)) =
      [session_started_frame ?E ''s1'' ''voice-ai-s1''
         (fst (create_access_token ?E demo_world ''voice-ai-s1'' ''u1''))]"
    by (simp add: A) (simp add: demo_world_def)
  have same: "session_connectors (snd (handle_start_session ?F demo_world start_s1)) =
      session_connectors demo_world"
    by (simp add: B)
  from validate_start_s1[of model_returns_none real] demo_world_s1 none started boom same
  show ?thesis by blast
qed

text \<open>
  The claim as stated fails: \<^verbatim>\<open>s1\<close> is registered, a second start-session command
  for \<^verbatim>\<open>s1\<close> is answered with \<^verbatim>\<open>session_started\<close>, not with an error, and both the
  connector and the room-session record of \<^verbatim>\<open>s1\<close> have been replaced.
\<close>

theorem duplicate_start_not_rejected:
  "session_connectors demo_world ''s1'' = Some demo_connector \<and>
   room_sessions demo_world ''s1'' = Some demo_room \<and>
   fst (handle_start_session (demo_env model_returns_none real) demo_world start_s1) = Inr () \<and>
   sent (snd (handle_start_session (demo_env model_returns_none real) demo_world start_s1)) =
     [session_started_frame (demo_env model_returns_none real) ''s1'' ''voice-ai-s1''
        (fst (create_access_token (demo_env model_returns_none real) demo_world
                ''voice-ai-s1'' ''u1''))] \<and>
   session_connectors
     (snd (handle_start_session (demo_env model_returns_none real) demo_world start_s1))
     ''s1'' \<noteq> Some demo_connector \<and>
   room_sessions
     (snd (handle_start_session (demo_env model_returns_none real) demo_world start_s1))
     ''s1'' \<noteq> Some demo_room"
proof -
  let ?E = "demo_env model_returns_none real"
  let ?sm = "\<lparr>ssm_user_id = ''u1'', ssm_session_id = Some ''s1'', ssm_config = Some []\<rparr>"
  have sid: "ssm_session_id ?sm = Some ''s1''" and ne: "''s1'' \<noteq> []" by simp_all
  have none: "model_generate_content ?E (ai_calls demo_world) GreetingPrompt = AiReturns None"
    by (simp add: demo_env_simps model_returns_none_def)
  note H = handle_start_session_returns[OF validate_start_s1 sid ne demo_env_simps(4) none]
  have rt: "response_text None = None" by (simp add: response_text_def)
  have room: "livekit_room_prefix (settings ?E) @ ''-'' @ ''s1'' = ''voice-ai-s1''"
    by (simp add: demo_env_simps demo_settings_def)
  show ?thesis
    by (simp add: H Let_def rt room demo_world_s1 del: append.simps)
       (simp add: demo_world_def demo_connector_def demo_session_def demo_room_def
          started_session_def demo_env_simps)
qed


text \<open>
  C7 (amended). Every inbound text frame is answered without an exception leaving the
  loop body, and the loop handles every frame of the connection in order. A JSON object
  whose \<^verbatim>\<open>action\<close> is one of the four action strings is handed to exactly that handler.
  Every other frame gets exactly one error frame: code \<^verbatim>\<open>INVALID_JSON\<close> when
  \<^verbatim>\<open>json.loads\<close> raises \<^verbatim>\<open>JSONDecodeError\<close>, code \<^verbatim>\<open>INVALID_ACTION\<close> when the object's
  \<^verbatim>\<open>action\<close> is none of the four strings, and code \<^verbatim>\<open>INTERNAL_ERROR\<close> when
  \<^verbatim>\<open>json.loads\<close> raises any other exception or returns a value that is not an object.
\<close>

theorem message_decoding:
  "fst (process_message env w message) = Inr () \<and>
   livekit_endpoint env w frames =
     (None, foldl (\<lambda>w' m. snd (process_message env w' m)) w frames) \<and>
   (message = LoadsRaises (JSONDecodeError m) \<longrightarrow>
      process_message env w message =
        (Inr (), w\<lparr>sent := sent w @
           [PDict [(''action'', PStr ''error''), (''code'', PStr ''INVALID_JSON''),
                   (''message'', PStr ''Invalid JSON format'')]]\<rparr>)) \<and>
   (message = LoadsRaises e \<and> (case e of JSONDecodeError x \<Rightarrow> False | _ \<Rightarrow> True) \<longrightarrow>
      process_message env w message =
        (Inr (), w\<lparr>sent := sent w @
           [PDict [(''action'', PStr ''error''), (''code'', PStr ''INTERNAL_ERROR''),
                   (''message'', PStr ''Internal server error'')]]\<rparr>)) \<and>
   (message = Parsed (PDict dat) \<and>
    action = (case dict_get dat ''action'' of None \<Rightarrow> PNone | Some a \<Rightarrow> a) \<longrightarrow>
      (action = PStr ''start_session'' \<longrightarrow>
         process_message env w message = handle_start_session env w dat) \<and>
      (action = PStr ''audio_input'' \<longrightarrow>
         process_message env w message = handle_audio_input env w dat) \<and>
      (action = PStr ''screen_share_frame'' \<longrightarrow>
         process_message env w message = handle_screen_share_frame env w dat) \<and>
      (action = PStr ''end_session'' \<longrightarrow>
         process_message env w message = handle_end_session env w dat) \<and>
      (action \<notin> {PStr ''start_session'', PStr ''audio_input'', PStr ''screen_share_frame'',
                  PStr ''end_session''} \<longrightarrow>
         process_message env w message =
           (Inr (), w\<lparr>sent := sent w @
              [PDict [(''action'', PStr ''error''), (''code'', PStr ''INVALID_ACTION''),
                      (''message'', PStr (''Unknown action: '' @ py_str env action))]]\<rparr>))) \<and>
   (message = Parsed v \<and> (case v of PDict d \<Rightarrow> False | _ \<Rightarrow> True) \<longrightarrow>
      process_message env w message =
        (Inr (), w\<lparr>sent := sent w @
           [PDict [(''action'', PStr ''error''), (''code'', PStr ''INTERNAL_ERROR''),
                   (''message'', PStr ''Internal server error'')]]\<rparr>))"
proof (intro conjI impI)
  show "fst (process_message env w message) = Inr ()"
    by (rule process_message_returns_normally)
  show "livekit_endpoint env w frames =
     (None, foldl (\<lambda>w' m. snd (process_message env w' m)) w frames)"
    by (rule livekit_endpoint_fold)
next
  assume "message = LoadsRaises (JSONDecodeError m)"
  then show "process_message env w message =
        (Inr (), w\<lparr>sent := sent w @
           [PDict [(''action'', PStr ''error''), (''code'', PStr ''INVALID_JSON''),
                   (''message'', PStr ''Invalid JSON format'')]]\<rparr>)"
    by (simp add: process_message_malformed error_frame_def)
next
  assume "message = LoadsRaises e \<and> (case e of JSONDecodeError x \<Rightarrow> False | _ \<Rightarrow> True)"
  then show "process_message env w message =
        (Inr (), w\<lparr>sent := sent w @
           [PDict [(''action'', PStr ''error''), (''code'', PStr ''INTERNAL_ERROR''),
                   (''message'', PStr ''Internal server error'')]]\<rparr>)"
    by (simp add: process_message_loads_raises error_frame_def)
next
  assume h: "message = Parsed (PDict dat) \<and>
    action = (case dict_get dat ''action'' of None \<Rightarrow> PNone | Some a \<Rightarrow> a)"
  {
    assume "action = PStr ''start_session''"
    with h have "dict_get dat ''action'' = Some (PStr ''start_session'')"
      by (auto split: option.splits)
    with h show "process_message env w message = handle_start_session env w dat"
      by (simp add: process_message_start)
  next
    assume "action = PStr ''audio_input''"
    with h have "dict_get dat ''action'' = Some (PStr ''audio_input'')"
      by (auto split: option.splits)
    with h show "process_message env w message = handle_audio_input env w dat"
      by (simp add: process_message_audio)
  next
    assume "action = PStr ''screen_share_frame''"
    with h have "dict_get dat ''action'' = Some (PStr ''screen_share_frame'')"
      by (auto split: option.splits)
    with h show "process_message env w message = handle_screen_share_frame env w dat"
      by (simp add: process_message_screen)
  next
    assume "action = PStr ''end_session''"
    with h have "dict_get dat ''action'' = Some (PStr ''end_session'')"
      by (auto split: option.splits)
    with h show "process_message env w message = handle_end_session env w dat"
      by (simp add: process_message_end)
  next
    assume "action \<notin> {PStr ''start_session'', PStr ''audio_input'', PStr ''screen_share_frame'',
                  PStr ''end_session''}"
    with h show "process_message env w message =
           (Inr (), w\<lparr>sent := sent w @
              [PDict [(''action'', PStr ''error''), (''code'', PStr ''INVALID_ACTION''),
                      (''message'', PStr (''Unknown action: '' @ py_str env action))]]\<rparr>)"
      by (simp add: process_message_unknown error_frame_def)
  }
next
  assume "message = Parsed v \<and> (case v of PDict d \<Rightarrow> False | _ \<Rightarrow> True)"
  then show "process_message env w message =
        (Inr (), w\<lparr>sent := sent w @
           [PDict [(''action'', PStr ''error''), (''code'', PStr ''INTERNAL_ERROR''),
                   (''message'', PStr ''Internal server error'')]]\<rparr>)"
    by (simp add: process_message_not_object error_frame_def)
qed

theorem message_decoding_witness:
  "process_message (demo_env model_raises real) initial_world
       (LoadsRaises (JSONDecodeError ''Expecting value'')) =
     (Inr (), initial_world\<lparr>sent :=
        [PDict [(''action'', PStr ''error''), (''code'', PStr ''INVALID_JSON''),
                (''message'', PStr ''Invalid JSON format'')]]\<rparr>) \<and>
   process_message (demo_env model_raises real) initial_world
       (LoadsRaises (RecursionError ''maximum recursion depth exceeded'')) =
     (Inr (), initial_world\<lparr>sent :=
        [PDict [(''action'', PStr ''error''), (''code'', PStr ''INTERNAL_ERROR''),
                (''message'', PStr ''Internal server error'')]]\<rparr>) \<and>
   process_message (demo_env model_raises real) initial_world (Parsed (PDict start_s1)) =
     handle_start_session (demo_env model_raises real) initial_world start_s1 \<and>
   process_message (demo_env model_raises real) initial_world (Parsed (PDict audio_s1)) =
     handle_audio_input (demo_env model_raises real) initial_world audio_s1 \<and>
   process_message (demo_env model_raises real) initial_world (Parsed (PDict screen_s1)) =
     handle_screen_share_frame (demo_env model_raises real) initial_world screen_s1 \<and>
   process_message (demo_env model_raises real) initial_world (Parsed (PDict end_s1)) =
     handle_end_session (demo_env model_raises real) initial_world end_s1 \<and>
   process_message (demo_env model_raises real) initial_world
       (Parsed (PDict [(''action'', PStr ''dance'')])) =
     (Inr (), initial_world\<lparr>sent :=
        [PDict [(''action'', PStr ''error''), (''code'', PStr ''INVALID_ACTION''),
                (''message'', PStr ''Unknown action: dance'')]]\<rparr>) \<and>
   process_message (demo_env model_raises real) initial_world (Parsed (PList [])) =
     (Inr (), initial_world\<lparr>sent :=
        [PDict [(''action'', PStr ''error''), (''code'', PStr ''INTERNAL_ERROR''),
                (''message'', PStr ''Internal server error'')]]\<rparr>) \<and>
   livekit_endpoint (demo_env model_raises real) initial_world
       [LoadsRaises (JSONDecodeError ''Expecting value''), Parsed (PList [])] =
     (None, initial_world\<lparr>sent :=
        [PDict [(''action'', PStr ''error''), (''code'', PStr ''INVALID_JSON''),
                (''message'', PStr ''Invalid JSON format'')],
         PDict [(''action'', PStr ''error''), (''code'', PStr ''INTERNAL_ERROR''),
                (''message'', PStr ''Internal server error'')]]\<rparr>)"
proof -
  let ?E = "demo_env model_raises real"
  have e: "sent initial_world = []" by (simp add: initial_world_def)
  have malformed: "process_message ?E initial_world
        (LoadsRaises (JSONDecodeError ''Expecting value'')) =
      (Inr (), initial_world\<lparr>sent :=
         [PDict [(''action'', PStr ''error''), (''code'', PStr ''INVALID_JSON''),
                 (''message'', PStr ''Invalid JSON format'')]]\<rparr>)"
    using message_decoding [where env = ?E and w = initial_world
        and message = "LoadsRaises (JSONDecodeError ''Expecting value'')"
        and m = "''Expecting value''"]
    by (simp add: e)
  have deep: "process_message ?E initial_world
        (LoadsRaises (RecursionError ''maximum recursion depth exceeded'')) =
      (Inr (), initial_world\<lparr>sent :=
         [PDict [(''action'', PStr ''error''), (''code'', PStr ''INTERNAL_ERROR''),
                 (''message'', PStr ''Internal server error'')]]\<rparr>)"
    using message_decoding [where env = ?E and w = initial_world
        and message = "LoadsRaises (RecursionError ''maximum recursion depth exceeded'')"
        and e = "RecursionError ''maximum recursion depth exceeded''"]
    by (simp add: e)
  have start: "process_message ?E initial_world (Parsed (PDict start_s1)) =
      handle_start_session ?E initial_world start_s1"
    using message_decoding [where env = ?E and w = initial_world
        and message = "Parsed (PDict start_s1)" and dat = start_s1
        and action = "PStr ''start_session''"]
    by (simp add: start_s1_def dict_get_def)
  have audio: "process_message ?E initial_world (Parsed (PDict audio_s1)) =
      handle_audio_input ?E initial_world audio_s1"
    using message_decoding [where env = ?E and w = initial_world
        and message = "Parsed (PDict audio_s1)" and dat = audio_s1
        and action = "PStr ''audio_input''"]
    by (simp add: audio_s1_def dict_get_def)
  have screen: "process_message ?E initial_world (Parsed (PDict screen_s1)) =
      handle_screen_share_frame ?E initial_world screen_s1"
    using message_decoding [where env = ?E and w = initial_world
        and message = "Parsed (PDict screen_s1)" and dat = screen_s1
        and action = "PStr ''screen_share_frame''"]
    by (simp add: screen_s1_def dict_get_def)
  have ending: "process_message ?E initial_world (Parsed (PDict end_s1)) =
      handle_end_session ?E initial_world end_s1"
    using message_decoding [where env = ?E and w = initial_world
        and message = "Parsed (PDict end_s1)" and dat = end_s1
        and action = "PStr ''end_session''"]
    by (simp add: end_s1_def dict_get_def)
  have unknown: "process_message ?E initial_world
        (Parsed (PDict [(''action'', PStr ''dance'')])) =
      (Inr (), initial_world\<lparr>sent :=
         [PDict [(''action'', PStr ''error''), (''code'', PStr ''INVALID_ACTION''),
                 (''message'', PStr ''Unknown action: dance'')]]\<rparr>)"
    using message_decoding [where env = ?E and w = initial_world
        and message = "Parsed (PDict [(''action'', PStr ''dance'')])"
        and dat = "[(''action'', PStr ''dance'')]" and action = "PStr ''dance''"]
    by (simp add: dict_get_def py_str_def e)
  have other: "process_message ?E initial_world (Parsed (PList [])) =
      (Inr (), initial_world\<lparr>sent :=
         [PDict [(''action'', PStr ''error''), (''code'', PStr ''INTERNAL_ERROR''),
                 (''message'', PStr ''Internal server error'')]]\<rparr>)"
    using message_decoding [where env = ?E and w = initial_world
        and message = "Parsed (PList [])" and v = "PList []"]
    by (simp add: e)
  have other': "process_message ?E
        (initial_world\<lparr>sent :=
           [PDict [(''action'', PStr ''error''), (''code'', PStr ''INVALID_JSON''),
                   (''message'', PStr ''Invalid JSON format'')]]\<rparr>) (Parsed (PList [])) =
      (Inr (), initial_world\<lparr>sent :=
         [PDict [(''action'', PStr ''error''), (''code'', PStr ''INVALID_JSON''),
                 (''message'', PStr ''Invalid JSON format'')],
          PDict [(''action'', PStr ''error''), (''code'', PStr ''INTERNAL_ERROR''),
                 (''message'', PStr ''Internal server error'')]]\<rparr>)"
    using message_decoding [where env = ?E
        and w = "initial_world\<lparr>sent :=
           [PDict [(''action'', PStr ''error''), (''code'', PStr ''INVALID_JSON''),
                   (''message'', PStr ''Invalid JSON format'')]]\<rparr>"
        and message = "Parsed (PList [])" and v = "PList []"]
    by simp
  have loop: "livekit_endpoint ?E initial_world
       [LoadsRaises (JSONDecodeError ''Expecting value''), Parsed (PList [])] =
     (None, initial_world\<lparr>sent :=
        [PDict [(''action'', PStr ''error''), (''code'', PStr ''INVALID_JSON''),
                (''message'', PStr ''Invalid JSON format'')],
         PDict [(''action'', PStr ''error''), (''code'', PStr ''INTERNAL_ERROR''),
                (''message'', PStr ''Internal server error'')]]\<rparr>)"
    using message_decoding [where env = ?E and w = initial_world
        and frames = "[LoadsRaises (JSONDecodeError ''Expecting value''), Parsed (PList [])]",
        THEN conjunct2, THEN conjunct1]
    by (simp only: foldl.simps malformed other' snd_conv)
  from malformed deep start audio screen ending unknown other loop show ?thesis by blast
qed

text \<open>
  The claim as stated fails. The first frame is a run of a thousand opening brackets:
  not JSON, but \<^verbatim>\<open>json.loads\<close> gives up with \<^verbatim>\<open>RecursionError\<close> and the answer carries
  \<^verbatim>\<open>INTERNAL_ERROR\<close>, not \<^verbatim>\<open>INVALID_JSON\<close>. The second is an end-session object for the
  registered \<^verbatim>\<open>s1\<close> with an integer of five thousand digits in a further field:
  \<^verbatim>\<open>json.loads\<close> raises \<^verbatim>\<open>ValueError\<close>, the frame is not handed to the end-session
  handler and \<^verbatim>\<open>s1\<close> stays registered. The third is the JSON array \<^verbatim>\<open>[]\<close>, neither a
  command nor an unknown action nor malformed, answered with \<^verbatim>\<open>INTERNAL_ERROR\<close>.
\<close>

theorem undecodable_frames_get_internal_error:
  "process_message (demo_env model_raises real) initial_world
       (LoadsRaises (RecursionError ''maximum recursion depth exceeded'')) =
     (Inr (), initial_world\<lparr>sent :=
        [PDict [(''action'', PStr ''error''), (''code'', PStr ''INTERNAL_ERROR''),
                (''message'', PStr ''Internal server error'')]]\<rparr>) \<and>
   process_message (demo_env model_raises real) demo_world
       (LoadsRaises (ValueError ''Exceeds the limit (4300 digits) for integer string conversion'')) =
     (Inr (), demo_world\<lparr>sent :=
        [PDict [(''action'', PStr ''error''), (''code'', PStr ''INTERNAL_ERROR''),
                (''message'', PStr ''Internal server error'')]]\<rparr>) \<and>
   session_connectors
     (snd (process_message (demo_env model_raises real) demo_world
        (LoadsRaises (ValueError ''Exceeds the limit (4300 digits) for integer string conversion''))))
     ''s1'' = Some demo_connector \<and>
   process_message (demo_env model_raises real) initial_world (Parsed (PList [])) =
     (Inr (), initial_world\<lparr>sent :=
        [PDict [(''action'', PStr ''error''), (''code'', PStr ''INTERNAL_ERROR''),
                (''message'', PStr ''Internal server error'')]]\<rparr>)"
  by (simp add: process_message_loads_raises process_message_not_object error_frame_def
      initial_world_def demo_world_def)

text \<open>
  C8. Two audio submissions to the registered session \<^verbatim>\<open>s1\<close>, each answered by the
  model with a text. The generator of the first yields a text event and an audio event
  (\<open>process_audio_input_text\<close>), but the loop over them is left at the first: \<^verbatim>\<open>json.dumps(text_message.dict())\<close>
  raises on the \<^verbatim>\<open>datetime\<close> of the \<^verbatim>\<open>timestamp\<close> field, nothing has been sent, and the
  audio event is never asked for. The same happens to the second submission. The caller
  sees two \<^verbatim>\<open>CRITICAL_AUDIO_ERROR\<close> frames, in the order of the submissions, and no
  text response at all.
\<close>

theorem two_text_replies_evaluated:
  "consume_audio (demo_env (model_says ''Open the S3 console'') real) demo_world ''s1''
       [YieldText ''Open the S3 console'' ''s1'', YieldAudio ''s1''] =
     (Inl (TypeError ''Object of type datetime is not JSON serializable''),
      demo_world\<lparr>ticks := 12\<rparr>) \<and>
   fst (livekit_endpoint (demo_env (model_says ''Open the S3 console'') real) demo_world
          [Parsed (PDict audio_s1), Parsed (PDict audio_s1)]) = None \<and>
   sent (snd (livekit_endpoint (demo_env (model_says ''Open the S3 console'') real) demo_world
          [Parsed (PDict audio_s1), Parsed (PDict audio_s1)])) =
     [PDict [(''action'', PStr ''error''), (''code'', PStr ''CRITICAL_AUDIO_ERROR''),
             (''message'', PStr ''Audio processing unavailable, please restart session'')],
      PDict [(''action'', PStr ''error''), (''code'', PStr ''CRITICAL_AUDIO_ERROR''),
             (''message'', PStr ''Audio processing unavailable, please restart session'')]]"
proof -
  let ?E = "demo_env (model_says ''Open the S3 console'') real"
  have left: "consume_audio ?E demo_world ''s1''
        [YieldText ''Open the S3 console'' ''s1'', YieldAudio ''s1''] =
      (Inl (TypeError ''Object of type datetime is not JSON serializable''),
       demo_world\<lparr>ticks := 12\<rparr>)"
    by (simp only: consume_audio_text) (simp add: demo_world_def)
  have reg: "registered_active demo_world ''s1''"
    by (simp add: registered_active_def demo_world_s1 demo_connector_active)
  have act: "dict_get audio_s1 ''action'' = Some (PStr ''audio_input'')"
    by (simp add: audio_s1_def dict_get_def)
  have all: "list_all2 (\<lambda>d am. dict_get d ''action'' = Some (PStr ''audio_input'') \<and>
                      validate_AudioInputMessage ?E d = Inr am \<and> aim_session_id am = ''s1'')
     [audio_s1, audio_s1]
     [\<lparr>aim_session_id = ''s1'', aim_data = ''AAAA''\<rparr>,
      \<lparr>aim_session_id = ''s1'', aim_data = ''AAAA''\<rparr>]"
    by (simp add: act validate_audio_s1)
  have replies: "audio_replies ?E (ai_calls demo_world) [''AAAA'', ''AAAA''] =
      [PDict [(''action'', PStr ''error''), (''code'', PStr ''CRITICAL_AUDIO_ERROR''),
             (''message'', PStr ''Audio processing unavailable, please restart session'')],
       PDict [(''action'', PStr ''error''), (''code'', PStr ''CRITICAL_AUDIO_ERROR''),
             (''message'', PStr ''Audio processing unavailable, please restart session'')]]"
    by (simp add: audio_reply_def demo_env_simps model_says_def response_text_def
        critical_audio_error_def error_frame_def)
  have e: "sent demo_world = []" by (simp add: demo_world_def)
  have m1: "map (\<lambda>d. Parsed (PDict d)) [audio_s1, audio_s1] =
      [Parsed (PDict audio_s1), Parsed (PDict audio_s1)]" by simp
  have m2: "map aim_data [\<lparr>aim_session_id = ''s1'', aim_data = ''AAAA''\<rparr>,
      \<lparr>aim_session_id = ''s1'', aim_data = ''AAAA''\<rparr>] = [''AAAA'', ''AAAA'']" by simp
  note T = audio_replies_in_order[OF reg all, unfolded m1 m2 replies e append_Nil]
  note ok = T[THEN conjunct1]
  note frames = T[THEN conjunct2, THEN conjunct1]
  from left ok frames show ?thesis by blast
qed

end
